theory Spec2Isabelle
  imports Complex_Main
begin

section \<open>Array operations used by the notebooks\<close>

text \<open>
  The two notebooks (the salmon notebook and the coal-mining disasters notebook)
  use a handful of numpy operations on one-dimensional arrays. An integer array is
  an \<open>int list\<close>, a two-dimensional array is a list of rows. An operation that
  raises in Python returns \<open>Inl\<close> of the exception.
\<close>

datatype py_error =
  ValueError | KeyError | IndexError | NameError | AttributeError | FileNotFoundError | LibraryError string

text \<open>\<^verbatim>\<open>np.arange(start, stop)\<close> on integers, step 1: the values
  \<open>start, start + 1, ...\<close> below \<open>stop\<close>; empty when \<open>stop \<le> start\<close>.\<close>

definition arange :: "int \<Rightarrow> int \<Rightarrow> int list" where
  "arange start stop = map (\<lambda>i. start + int i) [0..<nat (stop - start)]"

text \<open>\<^verbatim>\<open>a.min()\<close>: the least element; numpy raises ValueError on an empty array.\<close>

definition amin :: "int list \<Rightarrow> py_error + int" where
  "amin xs = (case xs of [] \<Rightarrow> Inl ValueError | x # r \<Rightarrow> Inr (fold min r x))"

text \<open>\<^verbatim>\<open>a - c\<close> for an array and a scalar (broadcast).\<close>

definition sub_scalar :: "int list \<Rightarrow> int \<Rightarrow> int list" where
  "sub_scalar xs c = map (\<lambda>v. v - c) xs"

text \<open>\<^verbatim>\<open>a.reshape(-1, 1)\<close>: a column, one row of one element per entry.\<close>

definition reshape_col :: "'a list \<Rightarrow> 'a list list" where
  "reshape_col xs = map (\<lambda>v. [v]) xs"

section \<open>The data of the disasters notebook\<close>

text \<open>The literal array of the second code cell, row by row as in the source.\<close>

definition disasters_data :: "int list" where
  "disasters_data =
     [4, 5, 4, 0, 1, 4, 3, 4, 0, 6, 3, 3, 4, 0, 2, 6,
      3, 3, 5, 4, 5, 3, 1, 4, 4, 1, 5, 5, 3, 4, 2, 5,
      2, 2, 3, 4, 2, 1, 3, 2, 2, 1, 1, 1, 1, 3, 0, 0,
      1, 0, 1, 1, 0, 0, 3, 1, 0, 3, 2, 2, 0, 1, 1, 1,
      0, 1, 0, 1, 0, 0, 0, 2, 1, 0, 0, 0, 1, 1, 0, 2,
      3, 3, 1, 1, 2, 1, 1, 1, 1, 2, 4, 2, 0, 0, 1, 4,
      0, 0, 0, 1, 0, 0, 0, 0, 0, 1, 0, 0, 1, 0, 1]"

text \<open>\<^verbatim>\<open>year = np.arange(1851, 1962)\<close>\<close>

definition year :: "int list" where
  "year = arange 1851 1962"

text \<open>\<^verbatim>\<open>year_ind = (year-year.min()).reshape(-1,1)\<close>\<close>

definition year_ind_of :: "int list \<Rightarrow> py_error + int list list" where
  "year_ind_of yr =
     (case amin yr of
        Inl e \<Rightarrow> Inl e
      | Inr m \<Rightarrow> Inr (reshape_col (sub_scalar yr m)))"

definition year_ind :: "py_error + int list list" where
  "year_ind = year_ind_of year"

section \<open>Symbolic tensors and model declarations\<close>

text \<open>
  The notebooks build their models in the probabilistic-programming library's
  declarative language: inside a \<^verbatim>\<open>with pm.Model()\<close> block, each call such as
  \<^verbatim>\<open>pm.Normal('name', ...)\<close> registers a named random variable with the model and
  returns a symbolic tensor that stands for its value. Arithmetic on such tensors
  builds new symbolic tensors. A tensor is modelled by its denotation: the value it
  takes once every random variable has a value. Data values are real numbers.
  The Greek names of the source are spelled out (\<open>beta\<close> for the source's variable
  of that letter, and so on).
\<close>

datatype ndarray = Scalar real | Vec "real list"

type_synonym env = "string \<Rightarrow> ndarray"
type_synonym tensor = "env \<Rightarrow> py_error + ndarray"

definition ebind :: "'e + 'a \<Rightarrow> ('a \<Rightarrow> 'e + 'b) \<Rightarrow> 'e + 'b" where
  "ebind m f = (case m of Inl e \<Rightarrow> Inl e | Inr v \<Rightarrow> f v)"

text \<open>Elementwise binary operations with numpy's broadcasting rules.\<close>

fun broadcast :: "(real \<Rightarrow> real \<Rightarrow> real) \<Rightarrow> ndarray \<Rightarrow> ndarray \<Rightarrow> py_error + ndarray" where
  "broadcast f (Scalar a) (Scalar b) = Inr (Scalar (f a b))"
| "broadcast f (Scalar a) (Vec bs) = Inr (Vec (map (f a) bs))"
| "broadcast f (Vec as) (Scalar b) = Inr (Vec (map (\<lambda>a. f a b) as))"
| "broadcast f (Vec as) (Vec bs) =
     (if length as = length bs then Inr (Vec (map2 f as bs))
      else if length as = 1 then Inr (Vec (map (f (hd as)) bs))
      else if length bs = 1 then Inr (Vec (map (\<lambda>a. f a (hd bs)) as))
      else Inl ValueError)"

fun map_nd :: "(real \<Rightarrow> real) \<Rightarrow> ndarray \<Rightarrow> ndarray" where
  "map_nd f (Scalar a) = Scalar (f a)"
| "map_nd f (Vec as) = Vec (map f as)"

text \<open>\<^verbatim>\<open>v[i]\<close> for a constant index \<open>i \<ge> 0\<close>.\<close>

fun index_nd :: "ndarray \<Rightarrow> nat \<Rightarrow> py_error + ndarray" where
  "index_nd (Scalar a) i = Inl IndexError"
| "index_nd (Vec as) i = (if i < length as then Inr (Scalar (as ! i)) else Inl IndexError)"

definition t_var :: "string \<Rightarrow> tensor" where
  "t_var n = (\<lambda>env. Inr (env n))"

definition t_data :: "real list \<Rightarrow> tensor" where
  "t_data xs = (\<lambda>env. Inr (Vec xs))"

definition t_index :: "tensor \<Rightarrow> nat \<Rightarrow> tensor" where
  "t_index t i = (\<lambda>env. ebind (t env) (\<lambda>v. index_nd v i))"

definition t_binop :: "(real \<Rightarrow> real \<Rightarrow> real) \<Rightarrow> tensor \<Rightarrow> tensor \<Rightarrow> tensor" where
  "t_binop f a b = (\<lambda>env. ebind (a env) (\<lambda>u. ebind (b env) (\<lambda>v. broadcast f u v)))"

definition t_add :: "tensor \<Rightarrow> tensor \<Rightarrow> tensor" where
  "t_add = t_binop (+)"

definition t_mul :: "tensor \<Rightarrow> tensor \<Rightarrow> tensor" where
  "t_mul = t_binop (*)"

definition t_pow :: "tensor \<Rightarrow> nat \<Rightarrow> tensor" where
  "t_pow t n = (\<lambda>env. ebind (t env) (\<lambda>v. Inr (map_nd (\<lambda>a. a ^ n) v)))"

text \<open>\<^verbatim>\<open>pm.math.exp\<close>: the elementwise exponential.\<close>

definition t_exp :: "tensor \<Rightarrow> tensor" where
  "t_exp t = (\<lambda>env. ebind (t env) (\<lambda>v. Inr (map_nd exp v)))"

text \<open>\<^verbatim>\<open>x**2\<close> on a data array (numpy, before the array meets a tensor).\<close>

definition np_pow :: "real list \<Rightarrow> nat \<Rightarrow> real list" where
  "np_pow xs n = map (\<lambda>v. v ^ n) xs"

text \<open>
  An argument of a distribution is a Python number or a tensor. A float can be
  infinite or not a number; finite floats are modelled as reals.
\<close>

datatype fval = Finite real | PosInf | NegInf | NaN

datatype param = Num real | Sym tensor

datatype mean_fn = ZeroMean | LinearMean fval

datatype cov_fn = ExpQuad nat param | ScaledCov tensor cov_fn

datatype dist =
    Normal param param
  | HalfNormal param
  | HalfCauchy param
  | Exponential param
  | Poisson param
  | Deterministic tensor
  | GPLatentPrior mean_fn cov_fn "real list list"
  | GPMarginalLikelihood mean_fn cov_fn "real list list" param
  | GPConditional mean_fn cov_fn "real list list" bool

record rv =
  rv_name :: string
  rv_dist :: dist
  rv_shape :: "nat option"
  rv_observed :: "real list option"

type_synonym model = "rv list"

text \<open>
  Declaring a variable inside the \<^verbatim>\<open>with\<close> block appends it to the model and
  returns the tensor of its value. A deterministic variable returns the tensor
  it names.
\<close>

definition declare_rv :: "string \<Rightarrow> dist \<Rightarrow> nat option \<Rightarrow> real list option \<Rightarrow> model \<Rightarrow> tensor \<times> model" where
  "declare_rv n d sh ob m =
     (t_var n, m @ [\<lparr>rv_name = n, rv_dist = d, rv_shape = sh, rv_observed = ob\<rparr>])"

definition pm_Deterministic :: "string \<Rightarrow> tensor \<Rightarrow> model \<Rightarrow> tensor \<times> model" where
  "pm_Deterministic n t m =
     (t, m @ [\<lparr>rv_name = n, rv_dist = Deterministic t, rv_shape = None, rv_observed = None\<rparr>])"

text \<open>
  A Gaussian-process object (\<^verbatim>\<open>pm.gp.Latent\<close>, \<^verbatim>\<open>pm.gp.Marginal\<close>) holds its mean
  and covariance functions. Its methods \<^verbatim>\<open>prior\<close>, \<^verbatim>\<open>marginal_likelihood\<close> and
  \<^verbatim>\<open>conditional\<close> declare a variable in the model.
\<close>

record gaussian_process =
  gp_mean :: mean_fn
  gp_cov :: cov_fn

definition gp_prior :: "gaussian_process \<Rightarrow> string \<Rightarrow> real list list \<Rightarrow> model \<Rightarrow> tensor \<times> model" where
  "gp_prior gp n X m = declare_rv n (GPLatentPrior (gp_mean gp) (gp_cov gp) X) None None m"

definition gp_marginal_likelihood ::
  "gaussian_process \<Rightarrow> string \<Rightarrow> real list list \<Rightarrow> real list \<Rightarrow> param \<Rightarrow> model \<Rightarrow> tensor \<times> model" where
  "gp_marginal_likelihood gp n X y noise m =
     declare_rv n (GPMarginalLikelihood (gp_mean gp) (gp_cov gp) X noise) None (Some y) m"

definition gp_conditional ::
  "gaussian_process \<Rightarrow> string \<Rightarrow> real list list \<Rightarrow> bool \<Rightarrow> model \<Rightarrow> tensor \<times> model" where
  "gp_conditional gp n Xnew pred_noise m =
     declare_rv n (GPConditional (gp_mean gp) (gp_cov gp) Xnew pred_noise) None None m"

section \<open>The regression models of the salmon notebook\<close>

text \<open>
  \<^verbatim>\<open>
  with pm.Model() as linear_salmon_model:
      beta = pm.Normal('beta', mu=0, sigma=50, shape=2)
      sigma = pm.HalfNormal('sigma', sigma=50)
      mu = beta[0] + beta[1] * x
      recruits = pm.Normal('recruits', mu=mu, sigma=sigma, observed=y)
  \<close>
\<close>

definition linear_mu :: "tensor \<Rightarrow> real list \<Rightarrow> tensor" where
  "linear_mu beta x = t_add (t_index beta 0) (t_mul (t_index beta 1) (t_data x))"

definition linear_salmon_model :: "real list \<Rightarrow> real list \<Rightarrow> model" where
  "linear_salmon_model x y =
     (let (beta, m1) = declare_rv ''beta'' (Normal (Num 0) (Num 50)) (Some 2) None [];
          (sigma, m2) = declare_rv ''sigma'' (HalfNormal (Num 50)) None None m1;
          mu = linear_mu beta x;
          (recruits, m3) = declare_rv ''recruits'' (Normal (Sym mu) (Sym sigma)) None (Some y) m2
      in m3)"

text \<open>
  \<^verbatim>\<open>
  with pm.Model() as quad_salmon_model:
      beta = pm.Normal('beta', mu=0, sigma=50, shape=3)
      sigma = pm.HalfNormal('sigma', sigma=50)
      mu = beta[0] + beta[1] * x + beta[2] * x**2
      recruits = pm.Normal('recruits', mu=mu, sigma=sigma, observed=y)
  \<close>
\<close>

definition quad_mu :: "tensor \<Rightarrow> real list \<Rightarrow> tensor" where
  "quad_mu beta x =
     t_add (t_add (t_index beta 0) (t_mul (t_index beta 1) (t_data x)))
           (t_mul (t_index beta 2) (t_data (np_pow x 2)))"

definition quad_salmon_model :: "real list \<Rightarrow> real list \<Rightarrow> model" where
  "quad_salmon_model x y =
     (let (beta, m1) = declare_rv ''beta'' (Normal (Num 0) (Num 50)) (Some 3) None [];
          (sigma, m2) = declare_rv ''sigma'' (HalfNormal (Num 50)) None None m1;
          mu = quad_mu beta x;
          (recruits, m3) = declare_rv ''recruits'' (Normal (Sym mu) (Sym sigma)) None (Some y) m2
      in m3)"

section \<open>The model of the disasters notebook\<close>

text \<open>
  The model is built in three cells, each re-entering the model's context:
  \<^verbatim>\<open>
  with pm.Model() as disasters_model:
      rho = pm.Exponential('rho', 1)
      eta = pm.Exponential('eta', 1)
      K = eta**2 * cov.ExpQuad(1, rho)
      gp = pm.gp.Latent(cov_func=K)
  with disasters_model:
      f = gp.prior('f', X=year_ind)
  with disasters_model:
      lambda = pm.Deterministic('lambda', pm.math.exp(f))
      confirmation = pm.Poisson('confirmation', lambda, observed=disasters_data)
  \<close>
  The latent Gaussian process has the library's default mean function, zero.
\<close>

definition disasters_model_1 :: "gaussian_process \<times> model" where
  "disasters_model_1 =
     (let (rho, m1) = declare_rv ''rho'' (Exponential (Num 1)) None None [];
          (eta, m2) = declare_rv ''eta'' (Exponential (Num 1)) None None m1;
          K = ScaledCov (t_pow eta 2) (ExpQuad 1 (Sym rho));
          gp = \<lparr>gp_mean = ZeroMean, gp_cov = K\<rparr>
      in (gp, m2))"

definition disasters_model_2 :: "gaussian_process \<Rightarrow> int list list \<Rightarrow> model \<Rightarrow> tensor \<times> model" where
  "disasters_model_2 gp X m = gp_prior gp ''f'' (map (map real_of_int) X) m"

definition disasters_model_3 :: "tensor \<Rightarrow> int list \<Rightarrow> model \<Rightarrow> model" where
  "disasters_model_3 f counts m =
     (let (lam, m1) = pm_Deterministic ''lambda'' (t_exp f) m;
          (confirmation, m2) =
             declare_rv ''confirmation'' (Poisson (Sym lam)) None
               (Some (map real_of_int counts)) m1
      in m2)"

text \<open>The three cells in the order of the notebook, on the arrays of its second cell.\<close>

definition disasters_model :: "py_error + model" where
  "disasters_model =
     (let (gp, m) = disasters_model_1
      in ebind year_ind (\<lambda>X.
           let (f, m') = disasters_model_2 gp X m
           in Inr (disasters_model_3 f disasters_data m')))"

section \<open>The salmon table and the Gaussian-process model\<close>

text \<open>
  The salmon notebook loads a table with named numeric columns. Reading a column
  that the table does not have raises (AttributeError for \<^verbatim>\<open>t.name\<close>, KeyError for
  \<^verbatim>\<open>t[['name', ...]]\<close>). All columns of a table have the same length. The row
  labels (\<^verbatim>\<open>index_col=0\<close>) are never read by the notebook and are left out.
\<close>

type_synonym table = "(string \<times> real list) list"

definition table_ok :: "table \<Rightarrow> bool" where
  "table_ok t = list_all (\<lambda>c. length (snd c) = length (snd (hd t))) t"

definition get_attr :: "table \<Rightarrow> string \<Rightarrow> py_error + real list" where
  "get_attr t n = (case map_of t n of None \<Rightarrow> Inl AttributeError | Some c \<Rightarrow> Inr c)"

definition get_item :: "table \<Rightarrow> string \<Rightarrow> py_error + real list" where
  "get_item t n = (case map_of t n of None \<Rightarrow> Inl KeyError | Some c \<Rightarrow> Inr c)"

text \<open>
  Float arithmetic on columns does not raise: dividing by zero gives an infinity,
  or not-a-number for \<open>0 / 0\<close>. Finite results are modelled as exact reals.
\<close>

fun is_finite :: "fval \<Rightarrow> bool" where
  "is_finite (Finite a) = True"
| "is_finite _ = False"

definition fdiv :: "real \<Rightarrow> real \<Rightarrow> fval" where
  "fdiv a b =
     (if b \<noteq> 0 then Finite (a / b)
      else if a > 0 then PosInf
      else if a < 0 then NegInf
      else NaN)"

fun fadd :: "fval \<Rightarrow> fval \<Rightarrow> fval" where
  "fadd (Finite a) (Finite b) = Finite (a + b)"
| "fadd NaN _ = NaN"
| "fadd _ NaN = NaN"
| "fadd PosInf NegInf = NaN"
| "fadd NegInf PosInf = NaN"
| "fadd PosInf _ = PosInf"
| "fadd _ PosInf = PosInf"
| "fadd NegInf _ = NegInf"
| "fadd _ NegInf = NegInf"

fun fdiv_count :: "fval \<Rightarrow> nat \<Rightarrow> fval" where
  "fdiv_count (Finite a) n = Finite (a / real n)"
| "fdiv_count v n = v"

text \<open>\<^verbatim>\<open>a / b\<close> on two columns of one table: elementwise.\<close>

definition series_div :: "real list \<Rightarrow> real list \<Rightarrow> fval list" where
  "series_div a b = map2 fdiv a b"

text \<open>\<^verbatim>\<open>s.mean()\<close> on a column: pandas skips the not-a-number entries, sums the
  others and divides by their count; with no entry left the mean is not a number.\<close>

definition series_mean :: "fval list \<Rightarrow> fval" where
  "series_mean qs =
     (let vs = filter (\<lambda>q. q \<noteq> NaN) qs
      in if vs = [] then NaN else fdiv_count (foldl fadd (Finite 0) vs) (length vs))"

text \<open>\<^verbatim>\<open>(salmon_data.recruits/salmon_data.spawners).mean()\<close>\<close>

definition gp_mean_coeff :: "table \<Rightarrow> py_error + fval" where
  "gp_mean_coeff salmon_data =
     ebind (get_attr salmon_data ''recruits'') (\<lambda>r.
     ebind (get_attr salmon_data ''spawners'') (\<lambda>s.
       Inr (series_mean (series_div r s))))"

text \<open>
  \<^verbatim>\<open>
  with pm.Model() as gp_salmon_model:
      rho = pm.HalfCauchy('rho', 5)
      eta = pm.HalfCauchy('eta', 5)
      M = pm.gp.mean.Linear(coeffs=(salmon_data.recruits/salmon_data.spawners).mean())
      K = (eta**2) * pm.gp.cov.ExpQuad(1, rho)
      sigma = pm.HalfNormal('sigma', 50)
      recruit_gp = pm.gp.Marginal(mean_func=M, cov_func=K)
      recruit_gp.marginal_likelihood('recruits',
          X=salmon_data.spawners.values.reshape(-1,1),
          y=salmon_data.recruits.values, noise=sigma)
  \<close>
\<close>

definition gp_salmon_model :: "table \<Rightarrow> py_error + gaussian_process \<times> model" where
  "gp_salmon_model salmon_data =
     (let (rho, m1) = declare_rv ''rho'' (HalfCauchy (Num 5)) None None [];
          (eta, m2) = declare_rv ''eta'' (HalfCauchy (Num 5)) None None m1
      in ebind (gp_mean_coeff salmon_data) (\<lambda>c.
         let M = LinearMean c;
             K = ScaledCov (t_pow eta 2) (ExpQuad 1 (Sym rho));
             (sigma, m3) = declare_rv ''sigma'' (HalfNormal (Num 50)) None None m2;
             recruit_gp = \<lparr>gp_mean = M, gp_cov = K\<rparr>
         in ebind (get_attr salmon_data ''spawners'') (\<lambda>sp.
            ebind (get_attr salmon_data ''recruits'') (\<lambda>re.
              Inr (recruit_gp,
                   snd (gp_marginal_likelihood recruit_gp ''recruits''
                          (reshape_col sp) re (Sym sigma) m3))))))"

section \<open>The numeric arguments of a model\<close>

text \<open>
  The numbers given to the declarations of a model, in the order of the
  declarations: the numeric parameters of each distribution, the coefficient of a
  linear mean function, the input dimension of a covariance function and the shape
  of a variable. Tensors and data arrays are not numbers and are left out.
\<close>

fun param_nums :: "param \<Rightarrow> fval list" where
  "param_nums (Num c) = [Finite c]"
| "param_nums (Sym t) = []"

fun mean_nums :: "mean_fn \<Rightarrow> fval list" where
  "mean_nums ZeroMean = []"
| "mean_nums (LinearMean c) = [c]"

fun cov_nums :: "cov_fn \<Rightarrow> fval list" where
  "cov_nums (ExpQuad d ls) = Finite (real d) # param_nums ls"
| "cov_nums (ScaledCov t k) = cov_nums k"

fun dist_nums :: "dist \<Rightarrow> fval list" where
  "dist_nums (Normal mu sigma) = param_nums mu @ param_nums sigma"
| "dist_nums (HalfNormal sigma) = param_nums sigma"
| "dist_nums (HalfCauchy b) = param_nums b"
| "dist_nums (Exponential lam) = param_nums lam"
| "dist_nums (Poisson mu) = param_nums mu"
| "dist_nums (Deterministic t) = []"
| "dist_nums (GPLatentPrior M K X) = mean_nums M @ cov_nums K"
| "dist_nums (GPMarginalLikelihood M K X noise) = mean_nums M @ cov_nums K @ param_nums noise"
| "dist_nums (GPConditional M K Xnew pred_noise) = mean_nums M @ cov_nums K"

definition rv_nums :: "rv \<Rightarrow> fval list" where
  "rv_nums r =
     dist_nums (rv_dist r) @ (case rv_shape r of None \<Rightarrow> [] | Some n \<Rightarrow> [Finite (real n)])"

definition model_nums :: "model \<Rightarrow> fval list" where
  "model_nums m = concat (map rv_nums m)"

section \<open>Running a notebook\<close>

text \<open>
  A notebook is a sequence of code cells, a cell a sequence of statements, run in
  order. A statement reads and binds names of the notebook's namespace and calls the
  libraries; it either raises or completes. There is no \<^verbatim>\<open>try\<close> statement in
  either notebook, so an exception ends the run: the model has no construct that
  catches one. A name that is read before it is bound raises NameError.

  The libraries are a parameter of the run. Reading the file, drawing random
  numbers, sampling and drawing figures are theirs; each call gets the arguments of
  the source and may raise. Imports bind module names and are not modelled, nor are
  the figure and axes handles: every drawing call goes to \<open>lib_plot\<close>.
\<close>

type_synonym trace = "(string \<times> real list list) list"

datatype array = A1 "real list" | A2 "real list list"

datatype plot_cmd =
    Scatter table string string "string option" nat
  | Hist "real list"
  | PlotTrace trace "string list option"
  | PlotPosterior trace "string list"
  | Subplots nat nat
  | SetXlim real real
  | SetYlim real "real option"
  | SetXlabel string
  | SetYlabel string
  | AxPlot "real list" "real list" "real option" "string option"
  | Bar "real list" "real list" string real real
  | PlotGpDist "real list list" array
  | Regplot "real list" "real list" bool
  | SetContext string

record sample_opts =
  cores :: "nat option"
  chains :: "nat option"
  random_seed :: "nat option"

record lib =
  pd_read_table :: "string \<Rightarrow> string \<Rightarrow> nat \<Rightarrow> py_error + table"
  dist_random :: "dist \<Rightarrow> nat \<Rightarrow> py_error + real list"
  pm_sample :: "model \<Rightarrow> nat \<Rightarrow> nat \<Rightarrow> sample_opts \<Rightarrow> py_error + trace"
  pm_sample_posterior_predictive ::
    "model \<Rightarrow> trace \<Rightarrow> tensor list \<Rightarrow> nat \<Rightarrow> nat option \<Rightarrow> py_error + trace"
  lib_plot :: "plot_cmd \<Rightarrow> py_error + unit"

type_synonym 's stmt = "lib \<Rightarrow> 's \<Rightarrow> py_error + 's"

fun run_stmts :: "lib \<Rightarrow> 's stmt list \<Rightarrow> 's \<Rightarrow> py_error + 's" where
  "run_stmts L [] s = Inr s"
| "run_stmts L (c # cs) s = ebind (c L s) (run_stmts L cs)"

text \<open>A \<^verbatim>\<open>for\<close> loop over the rows of an array.\<close>

fun for_each :: "'a list \<Rightarrow> ('a \<Rightarrow> 's \<Rightarrow> py_error + 's) \<Rightarrow> 's \<Rightarrow> py_error + 's" where
  "for_each [] body s = Inr s"
| "for_each (a # as) body s = ebind (body a s) (for_each as body)"

definition need :: "'a option \<Rightarrow> py_error + 'a" where
  "need v = (case v of None \<Rightarrow> Inl NameError | Some a \<Rightarrow> Inr a)"

text \<open>\<^verbatim>\<open>d['name']\<close> on a trace or on a dictionary of posterior predictive samples.\<close>

definition samples_of :: "trace \<Rightarrow> string \<Rightarrow> py_error + real list list" where
  "samples_of tr n = (case map_of tr n of None \<Rightarrow> Inl KeyError | Some a \<Rightarrow> Inr a)"

text \<open>Unpacking a row into two or three names raises ValueError on another length.\<close>

definition unpack2 :: "'a list \<Rightarrow> py_error + 'a \<times> 'a" where
  "unpack2 r = (case r of [a, b] \<Rightarrow> Inr (a, b) | _ \<Rightarrow> Inl ValueError)"

definition unpack3 :: "'a list \<Rightarrow> py_error + 'a \<times> 'a \<times> 'a" where
  "unpack3 r = (case r of [a, b, c] \<Rightarrow> Inr (a, b, c) | _ \<Rightarrow> Inl ValueError)"

text \<open>\<^verbatim>\<open>np.linspace(start, stop, num)\<close>\<close>

definition np_linspace :: "real \<Rightarrow> real \<Rightarrow> nat \<Rightarrow> real list" where
  "np_linspace a b n =
     (if n = 1 then [a] else map (\<lambda>i. a + real i * ((b - a) / real (n - 1))) [0..<n])"

text \<open>The separator \<^verbatim>\<open>'\s+'\<close> of the source: a backslash, then \<open>s+\<close>.\<close>

definition whitespace_sep :: string where
  "whitespace_sep = CHR 0x5C # ''s+''"

section \<open>The salmon notebook\<close>

text \<open>
  The namespace of the salmon notebook: the names that a later statement reads,
  each unbound at the start. With them, the warnings filter of the interpreter and
  the list of the files the notebook has read. Names bound inside a \<^verbatim>\<open>with\<close>
  block or by a loop header and never read by a later statement (the tensors of the
  priors, the loop variables \<open>b0\<close>, \<open>b1\<close>, \<open>b2\<close>) are local to the statement.
\<close>

record salmon_ns =
  s_warnings :: "string list"
  s_file_reads :: "string list"
  s_salmon_data :: "table option"
  s_a_normal_distribution :: "dist option"
  s_a_half_normal_distribution :: "dist option"
  s_x :: "real list option"
  s_y :: "real list option"
  s_linear_salmon_model :: "model option"
  s_linear_trace :: "trace option"
  s_X_pred :: "real list option"
  s_quad_salmon_model :: "model option"
  s_quad_trace :: "trace option"
  s_gp_salmon_model :: "model option"
  s_recruit_gp :: "gaussian_process option"
  s_gp_trace :: "trace option"
  s_salmon_pred :: "tensor option"
  s_gp_salmon_samples :: "trace option"
  s_salmon_pred_noise :: "tensor option"

definition salmon_init :: salmon_ns where
  "salmon_init =
     \<lparr>s_warnings = [], s_file_reads = [], s_salmon_data = None,
      s_a_normal_distribution = None, s_a_half_normal_distribution = None,
      s_x = None, s_y = None, s_linear_salmon_model = None, s_linear_trace = None,
      s_X_pred = None, s_quad_salmon_model = None, s_quad_trace = None,
      s_gp_salmon_model = None, s_recruit_gp = None, s_gp_trace = None,
      s_salmon_pred = None, s_gp_salmon_samples = None, s_salmon_pred_noise = None\<rparr>"

text \<open>\<^verbatim>\<open>salmon_data.plot.scatter(x='spawners', y='recruits', ...)\<close>\<close>

definition scatter_salmon :: "string option \<Rightarrow> salmon_ns stmt" where
  "scatter_salmon c L s =
     ebind (need (s_salmon_data s)) (\<lambda>d.
     ebind (lib_plot L (Scatter d ''spawners'' ''recruits'' c 50)) (\<lambda>_. Inr s))"

text \<open>
  Cell 1: the imports, then \<^verbatim>\<open>warnings.simplefilter('ignore')\<close>, which puts the
  filter in front of the interpreter's list.
\<close>

definition salmon_cell_1 :: "salmon_ns stmt list" where
  "salmon_cell_1 = [\<lambda>L s. Inr (s\<lparr>s_warnings := ''ignore'' # s_warnings s\<rparr>)]"

text \<open>
  Cell 2:
  \<^verbatim>\<open>
  salmon_data = pd.read_table('../data/salmon.txt', sep='\s+', index_col=0)
  salmon_data.plot.scatter(x='spawners', y='recruits', s=50);
  \<close>
\<close>

definition salmon_cell_2 :: "salmon_ns stmt list" where
  "salmon_cell_2 =
     [\<lambda>L s. ebind (pd_read_table L ''../data/salmon.txt'' whitespace_sep 0) (\<lambda>d.
         Inr (s\<lparr>s_salmon_data := Some d,
                 s_file_reads := s_file_reads s @ [''../data/salmon.txt'']\<rparr>)),
      scatter_salmon None]"

text \<open>
  Cells 3 and 4:
  \<^verbatim>\<open>
  a_normal_distribution = pm.Normal.dist(mu=0, sigma=50)
  plt.hist(a_normal_distribution.random(size=1000));
  a_half_normal_distribution = pm.HalfNormal.dist(sigma=50)
  plt.hist(a_half_normal_distribution.random(size=1000));
  \<close>
\<close>

definition salmon_cell_3 :: "salmon_ns stmt list" where
  "salmon_cell_3 =
     [\<lambda>L s. Inr (s\<lparr>s_a_normal_distribution := Some (Normal (Num 0) (Num 50))\<rparr>),
      \<lambda>L s. ebind (need (s_a_normal_distribution s)) (\<lambda>d.
         ebind (dist_random L d 1000) (\<lambda>draws.
         ebind (lib_plot L (Hist draws)) (\<lambda>_. Inr s)))]"

definition salmon_cell_4 :: "salmon_ns stmt list" where
  "salmon_cell_4 =
     [\<lambda>L s. Inr (s\<lparr>s_a_half_normal_distribution := Some (HalfNormal (Num 50))\<rparr>),
      \<lambda>L s. ebind (need (s_a_half_normal_distribution s)) (\<lambda>d.
         ebind (dist_random L d 1000) (\<lambda>draws.
         ebind (lib_plot L (Hist draws)) (\<lambda>_. Inr s)))]"

text \<open>Cell 5: \<^verbatim>\<open>x, y = salmon_data[['spawners', 'recruits']].values.T\<close>\<close>

definition salmon_cell_5 :: "salmon_ns stmt list" where
  "salmon_cell_5 =
     [\<lambda>L s. ebind (need (s_salmon_data s)) (\<lambda>d.
         ebind (get_item d ''spawners'') (\<lambda>sp.
         ebind (get_item d ''recruits'') (\<lambda>re.
           Inr (s\<lparr>s_x := Some sp, s_y := Some re\<rparr>))))]"

text \<open>Cell 6 declares the linear model; cell 7 samples it:
  \<^verbatim>\<open>linear_trace = pm.sample(1000, tune=2000, cores=2)\<close>; cell 8 is
  \<^verbatim>\<open>az.plot_trace(linear_trace)\<close>.\<close>

definition salmon_cell_6 :: "salmon_ns stmt list" where
  "salmon_cell_6 =
     [\<lambda>L s. ebind (need (s_x s)) (\<lambda>x.
         ebind (need (s_y s)) (\<lambda>y.
           Inr (s\<lparr>s_linear_salmon_model := Some (linear_salmon_model x y)\<rparr>)))]"

definition salmon_cell_7 :: "salmon_ns stmt list" where
  "salmon_cell_7 =
     [\<lambda>L s. ebind (need (s_linear_salmon_model s)) (\<lambda>m.
         ebind (pm_sample L m 1000 2000
                  \<lparr>cores = Some 2, chains = None, random_seed = None\<rparr>) (\<lambda>tr.
           Inr (s\<lparr>s_linear_trace := Some tr\<rparr>)))]"

definition salmon_cell_8 :: "salmon_ns stmt list" where
  "salmon_cell_8 =
     [\<lambda>L s. ebind (need (s_linear_trace s)) (\<lambda>tr.
         ebind (lib_plot L (PlotTrace tr None)) (\<lambda>_. Inr s))]"

text \<open>
  Cell 9:
  \<^verbatim>\<open>
  X_pred = np.linspace(0, 500, 100)
  ax = salmon_data.plot.scatter(x='spawners', y='recruits', c='k', s=50)
  ax.set_ylim(0, None)
  for b0,b1 in linear_trace['beta'][:20]:
      ax.plot(X_pred, b0 + b1*X_pred, alpha=0.3, color='seagreen');
  \<close>
\<close>

definition plot_linear_draws :: "salmon_ns stmt" where
  "plot_linear_draws L s =
     ebind (need (s_linear_trace s)) (\<lambda>tr.
     ebind (samples_of tr ''beta'') (\<lambda>rows.
       for_each (take 20 rows) (\<lambda>row s.
         ebind (unpack2 row) (\<lambda>(b0, b1).
         ebind (need (s_X_pred s)) (\<lambda>xp.
         ebind (lib_plot L (AxPlot xp (map (\<lambda>v. b0 + b1 * v) xp)
                  (Some 0.3) (Some ''seagreen''))) (\<lambda>_. Inr s)))) s))"

definition salmon_cell_9 :: "salmon_ns stmt list" where
  "salmon_cell_9 =
     [\<lambda>L s. Inr (s\<lparr>s_X_pred := Some (np_linspace 0 500 100)\<rparr>),
      scatter_salmon (Some ''k''),
      \<lambda>L s. ebind (lib_plot L (SetYlim 0 None)) (\<lambda>_. Inr s),
      plot_linear_draws]"

text \<open>Cell 10 declares the quadratic model; cell 11 samples it:
  \<^verbatim>\<open>quad_trace = pm.sample(1000, tune=2000, cores=2, random_seed=1)\<close>.\<close>

definition salmon_cell_10 :: "salmon_ns stmt list" where
  "salmon_cell_10 =
     [\<lambda>L s. ebind (need (s_x s)) (\<lambda>x.
         ebind (need (s_y s)) (\<lambda>y.
           Inr (s\<lparr>s_quad_salmon_model := Some (quad_salmon_model x y)\<rparr>)))]"

definition salmon_cell_11 :: "salmon_ns stmt list" where
  "salmon_cell_11 =
     [\<lambda>L s. ebind (need (s_quad_salmon_model s)) (\<lambda>m.
         ebind (pm_sample L m 1000 2000
                  \<lparr>cores = Some 2, chains = None, random_seed = Some 1\<rparr>) (\<lambda>tr.
           Inr (s\<lparr>s_quad_trace := Some tr\<rparr>)))]"

text \<open>
  Cell 12:
  \<^verbatim>\<open>
  ax = salmon_data.plot.scatter(x='spawners', y='recruits', c='k', s=50)
  ax.set_ylim(0, None)
  for b0,b1,b2 in quad_trace['beta'][:20]:
      ax.plot(X_pred, b0 + b1*X_pred + b2*X_pred**2, alpha=0.3, color='seagreen');
  \<close>
\<close>

definition plot_quad_draws :: "salmon_ns stmt" where
  "plot_quad_draws L s =
     ebind (need (s_quad_trace s)) (\<lambda>tr.
     ebind (samples_of tr ''beta'') (\<lambda>rows.
       for_each (take 20 rows) (\<lambda>row s.
         ebind (unpack3 row) (\<lambda>(b0, b1, b2).
         ebind (need (s_X_pred s)) (\<lambda>xp.
         ebind (lib_plot L (AxPlot xp (map (\<lambda>v. b0 + b1 * v + b2 * v\<^sup>2) xp)
                  (Some 0.3) (Some ''seagreen''))) (\<lambda>_. Inr s)))) s))"

definition salmon_cell_12 :: "salmon_ns stmt list" where
  "salmon_cell_12 =
     [scatter_salmon (Some ''k''),
      \<lambda>L s. ebind (lib_plot L (SetYlim 0 None)) (\<lambda>_. Inr s),
      plot_quad_draws]"

text \<open>Cell 13 declares the Gaussian-process model; cell 14 samples it:
  \<^verbatim>\<open>gp_trace = pm.sample(1000, tune=2000, cores=2, random_seed=42)\<close>; cell 15 is
  \<^verbatim>\<open>az.plot_trace(gp_trace, var_names=['rho', 'eta', 'sigma'])\<close>.\<close>

definition salmon_cell_13 :: "salmon_ns stmt list" where
  "salmon_cell_13 =
     [\<lambda>L s. ebind (need (s_salmon_data s)) (\<lambda>d.
         ebind (gp_salmon_model d) (\<lambda>(gp, m).
           Inr (s\<lparr>s_gp_salmon_model := Some m, s_recruit_gp := Some gp\<rparr>)))]"

definition salmon_cell_14 :: "salmon_ns stmt list" where
  "salmon_cell_14 =
     [\<lambda>L s. ebind (need (s_gp_salmon_model s)) (\<lambda>m.
         ebind (pm_sample L m 1000 2000
                  \<lparr>cores = Some 2, chains = None, random_seed = Some 42\<rparr>) (\<lambda>tr.
           Inr (s\<lparr>s_gp_trace := Some tr\<rparr>)))]"

definition salmon_cell_15 :: "salmon_ns stmt list" where
  "salmon_cell_15 =
     [\<lambda>L s. ebind (need (s_gp_trace s)) (\<lambda>tr.
         ebind (lib_plot L (PlotTrace tr (Some [''rho'', ''eta'', ''sigma'']))) (\<lambda>_. Inr s))]"

text \<open>
  Cell 16:
  \<^verbatim>\<open>
  with gp_salmon_model:
      salmon_pred = recruit_gp.conditional("salmon_pred", X_pred.reshape(-1, 1))
      gp_salmon_samples = pm.sample_posterior_predictive(gp_trace, vars=[salmon_pred],
                                                         samples=3, random_seed=42)
  \<close>
\<close>

definition salmon_cell_16 :: "salmon_ns stmt list" where
  "salmon_cell_16 =
     [\<lambda>L s. ebind (need (s_gp_salmon_model s)) (\<lambda>m.
         ebind (need (s_recruit_gp s)) (\<lambda>gp.
         ebind (need (s_X_pred s)) (\<lambda>xp.
         let (salmon_pred, m') = gp_conditional gp ''salmon_pred'' (reshape_col xp) False m;
             s1 = s\<lparr>s_gp_salmon_model := Some m', s_salmon_pred := Some salmon_pred\<rparr>
         in ebind (need (s_gp_trace s1)) (\<lambda>tr.
            ebind (pm_sample_posterior_predictive L m' tr [salmon_pred] 3 (Some 42)) (\<lambda>pp.
              Inr (s1\<lparr>s_gp_salmon_samples := Some pp\<rparr>))))))]"

text \<open>
  Cell 17 (the loop binds \<open>x\<close> anew at every round):
  \<^verbatim>\<open>
  ax = salmon_data.plot.scatter(x='spawners', y='recruits', c='k', s=50)
  ax.set_ylim(0, None)
  for x in gp_salmon_samples['salmon_pred']:
      ax.plot(X_pred, x);
  \<close>
\<close>

definition plot_gp_draws :: "salmon_ns stmt" where
  "plot_gp_draws L s =
     ebind (need (s_gp_salmon_samples s)) (\<lambda>pp.
     ebind (samples_of pp ''salmon_pred'') (\<lambda>rows.
       for_each rows (\<lambda>row s.
         let s1 = s\<lparr>s_x := Some row\<rparr>
         in ebind (need (s_X_pred s1)) (\<lambda>xp.
            ebind (need (s_x s1)) (\<lambda>x.
            ebind (lib_plot L (AxPlot xp x None None)) (\<lambda>_. Inr s1)))) s))"

definition salmon_cell_17 :: "salmon_ns stmt list" where
  "salmon_cell_17 =
     [scatter_salmon (Some ''k''),
      \<lambda>L s. ebind (lib_plot L (SetYlim 0 None)) (\<lambda>_. Inr s),
      plot_gp_draws]"

text \<open>
  Cell 18:
  \<^verbatim>\<open>
  with gp_salmon_model:
      gp_salmon_samples = pm.sample_posterior_predictive(gp_trace, vars=[salmon_pred],
                                                         samples=100, random_seed=42)
  \<close>
\<close>

definition salmon_cell_18 :: "salmon_ns stmt list" where
  "salmon_cell_18 =
     [\<lambda>L s. ebind (need (s_gp_salmon_model s)) (\<lambda>m.
         ebind (need (s_gp_trace s)) (\<lambda>tr.
         ebind (need (s_salmon_pred s)) (\<lambda>salmon_pred.
         ebind (pm_sample_posterior_predictive L m tr [salmon_pred] 100 (Some 42)) (\<lambda>pp.
           Inr (s\<lparr>s_gp_salmon_samples := Some pp\<rparr>)))))]"

text \<open>
  Cells 19 and 21, with \<open>name\<close> the variable plotted:
  \<^verbatim>\<open>
  from pymc3.gp.util import plot_gp_dist
  fig, ax = plt.subplots(figsize=(8,6))
  plot_gp_dist(ax, gp_salmon_samples[name], X_pred)
  salmon_data.plot.scatter(x='spawners', y='recruits', c='k', s=50, ax=ax)
  ax.set_ylim(0, 350);
  \<close>
\<close>

definition plot_salmon_gp :: "string \<Rightarrow> salmon_ns stmt list" where
  "plot_salmon_gp name =
     [\<lambda>L s. ebind (lib_plot L (Subplots 8 6)) (\<lambda>_. Inr s),
      \<lambda>L s. ebind (need (s_gp_salmon_samples s)) (\<lambda>pp.
         ebind (samples_of pp name) (\<lambda>rows.
         ebind (need (s_X_pred s)) (\<lambda>xp.
         ebind (lib_plot L (PlotGpDist rows (A1 xp))) (\<lambda>_. Inr s)))),
      scatter_salmon (Some ''k''),
      \<lambda>L s. ebind (lib_plot L (SetYlim 0 (Some 350))) (\<lambda>_. Inr s)]"

definition salmon_cell_19 :: "salmon_ns stmt list" where
  "salmon_cell_19 = plot_salmon_gp ''salmon_pred''"

text \<open>
  Cell 20:
  \<^verbatim>\<open>
  with gp_salmon_model:
      salmon_pred_noise = recruit_gp.conditional("salmon_pred_noise",
                                                 X_pred.reshape(-1,1), pred_noise=True)
      gp_salmon_samples = pm.sample_posterior_predictive(gp_trace,
                              vars=[salmon_pred_noise], samples=500, random_seed=42)
  \<close>
\<close>

definition salmon_cell_20 :: "salmon_ns stmt list" where
  "salmon_cell_20 =
     [\<lambda>L s. ebind (need (s_gp_salmon_model s)) (\<lambda>m.
         ebind (need (s_recruit_gp s)) (\<lambda>gp.
         ebind (need (s_X_pred s)) (\<lambda>xp.
         let (salmon_pred_noise, m') =
               gp_conditional gp ''salmon_pred_noise'' (reshape_col xp) True m;
             s1 = s\<lparr>s_gp_salmon_model := Some m',
                     s_salmon_pred_noise := Some salmon_pred_noise\<rparr>
         in ebind (need (s_gp_trace s1)) (\<lambda>tr.
            ebind (pm_sample_posterior_predictive L m' tr [salmon_pred_noise] 500 (Some 42))
              (\<lambda>pp. Inr (s1\<lparr>s_gp_salmon_samples := Some pp\<rparr>))))))]"

definition salmon_cell_21 :: "salmon_ns stmt list" where
  "salmon_cell_21 = plot_salmon_gp ''salmon_pred_noise''"

text \<open>Cell 22 holds a comment only.\<close>

definition salmon_cell_22 :: "salmon_ns stmt list" where
  "salmon_cell_22 = []"

definition salmon_cells :: "salmon_ns stmt list list" where
  "salmon_cells =
     [salmon_cell_1, salmon_cell_2, salmon_cell_3, salmon_cell_4, salmon_cell_5,
      salmon_cell_6, salmon_cell_7, salmon_cell_8, salmon_cell_9, salmon_cell_10,
      salmon_cell_11, salmon_cell_12, salmon_cell_13, salmon_cell_14, salmon_cell_15,
      salmon_cell_16, salmon_cell_17, salmon_cell_18, salmon_cell_19, salmon_cell_20,
      salmon_cell_21, salmon_cell_22]"

text \<open>The run of the first \<open>k\<close> cells, and of the whole notebook.\<close>

definition salmon_run :: "lib \<Rightarrow> nat \<Rightarrow> py_error + salmon_ns" where
  "salmon_run L k = run_stmts L (concat (take k salmon_cells)) salmon_init"

definition salmon_notebook :: "lib \<Rightarrow> py_error + salmon_ns" where
  "salmon_notebook L = salmon_run L (length salmon_cells)"

section \<open>The disasters notebook\<close>

text \<open>\<^verbatim>\<open>a.max()\<close>, \<^verbatim>\<open>a[0]\<close> and \<^verbatim>\<open>a[-1]\<close>; each raises on an empty array.\<close>

definition amax :: "int list \<Rightarrow> py_error + int" where
  "amax xs = (case xs of [] \<Rightarrow> Inl ValueError | x # r \<Rightarrow> Inr (fold max r x))"

definition first_elem :: "'a list \<Rightarrow> py_error + 'a" where
  "first_elem xs = (case xs of [] \<Rightarrow> Inl IndexError | x # r \<Rightarrow> Inr x)"

definition last_elem :: "'a list \<Rightarrow> py_error + 'a" where
  "last_elem xs = (if xs = [] then Inl IndexError else Inr (last xs))"

record disasters_ns =
  d_warnings :: "string list"
  d_file_reads :: "string list"
  d_disasters_data :: "int list option"
  d_year :: "int list option"
  d_year_ind :: "int list list option"
  d_disasters_model :: "model option"
  d_gp :: "gaussian_process option"
  d_f :: "tensor option"
  d_trace :: "trace option"
  d_years :: "int list option"
  d_y_pred :: "trace option"

definition disasters_init :: disasters_ns where
  "disasters_init =
     \<lparr>d_warnings = [], d_file_reads = [], d_disasters_data = None, d_year = None,
      d_year_ind = None, d_disasters_model = None, d_gp = None, d_f = None,
      d_trace = None, d_years = None, d_y_pred = None\<rparr>"

text \<open>
  Cell 1: the imports, then
  \<^verbatim>\<open>
  sns.set_context("notebook")
  import warnings
  warnings.simplefilter('ignore')
  \<close>
\<close>

definition disasters_cell_1 :: "disasters_ns stmt list" where
  "disasters_cell_1 =
     [\<lambda>L s. ebind (lib_plot L (SetContext ''notebook'')) (\<lambda>_. Inr s),
      \<lambda>L s. Inr (s\<lparr>d_warnings := ''ignore'' # d_warnings s\<rparr>)]"

text \<open>
  Cell 2:
  \<^verbatim>\<open>
  disasters_data = np.array([4, 5, 4, ...])
  year = np.arange(1851, 1962)
  year_ind = (year-year.min()).reshape(-1,1)
  \<close>
\<close>

definition disasters_cell_2 :: "disasters_ns stmt list" where
  "disasters_cell_2 =
     [\<lambda>L s. Inr (s\<lparr>d_disasters_data := Some disasters_data\<rparr>),
      \<lambda>L s. Inr (s\<lparr>d_year := Some (arange 1851 1962)\<rparr>),
      \<lambda>L s. ebind (need (d_year s)) (\<lambda>yr.
         ebind (year_ind_of yr) (\<lambda>yi. Inr (s\<lparr>d_year_ind := Some yi\<rparr>)))]"

text \<open>
  Cell 3:
  \<^verbatim>\<open>
  fig, ax = plt.subplots(figsize=(14,4))
  ax.bar(year, disasters_data, color="#348ABD", alpha=0.65, width=0.7)
  ax.set_xlim(year[0], year[-1]+1)
  ax.set_ylabel('Disaster count')
  ax.set_xlabel('Year');
  \<close>
\<close>

definition disasters_cell_3 :: "disasters_ns stmt list" where
  "disasters_cell_3 =
     [\<lambda>L s. ebind (lib_plot L (Subplots 14 4)) (\<lambda>_. Inr s),
      \<lambda>L s. ebind (need (d_year s)) (\<lambda>yr.
         ebind (need (d_disasters_data s)) (\<lambda>dd.
         ebind (lib_plot L (Bar (map real_of_int yr) (map real_of_int dd)
                  ''#348ABD'' 0.65 0.7)) (\<lambda>_. Inr s))),
      \<lambda>L s. ebind (need (d_year s)) (\<lambda>yr.
         ebind (first_elem yr) (\<lambda>lo.
         ebind (last_elem yr) (\<lambda>hi.
         ebind (lib_plot L (SetXlim (real_of_int lo) (real_of_int (hi + 1)))) (\<lambda>_. Inr s)))),
      \<lambda>L s. ebind (lib_plot L (SetYlabel ''Disaster count'')) (\<lambda>_. Inr s),
      \<lambda>L s. ebind (lib_plot L (SetXlabel ''Year'')) (\<lambda>_. Inr s)]"

text \<open>Cells 4, 5 and 6 declare the model, in three \<^verbatim>\<open>with\<close> blocks.\<close>

definition disasters_cell_4 :: "disasters_ns stmt list" where
  "disasters_cell_4 =
     [\<lambda>L s. let (gp, m) = disasters_model_1
         in Inr (s\<lparr>d_disasters_model := Some m, d_gp := Some gp\<rparr>)]"

definition disasters_cell_5 :: "disasters_ns stmt list" where
  "disasters_cell_5 =
     [\<lambda>L s. ebind (need (d_disasters_model s)) (\<lambda>m.
         ebind (need (d_gp s)) (\<lambda>gp.
         ebind (need (d_year_ind s)) (\<lambda>X.
         let (f, m') = disasters_model_2 gp X m
         in Inr (s\<lparr>d_disasters_model := Some m', d_f := Some f\<rparr>))))]"

definition disasters_cell_6 :: "disasters_ns stmt list" where
  "disasters_cell_6 =
     [\<lambda>L s. ebind (need (d_disasters_model s)) (\<lambda>m.
         ebind (need (d_f s)) (\<lambda>f.
         ebind (need (d_disasters_data s)) (\<lambda>dd.
           Inr (s\<lparr>d_disasters_model := Some (disasters_model_3 f dd m)\<rparr>))))]"

text \<open>
  Cells 7 to 10:
  \<^verbatim>\<open>
  with disasters_model:
      trace = pm.sample(1000, tune=1000, chains=2)
  az.plot_posterior(trace, var_names=['rho', 'eta']);
  years = (year - year.min())
  with disasters_model:
      y_pred = pm.sample_posterior_predictive(trace, vars=[f], samples=1000)
  \<close>
\<close>

definition disasters_cell_7 :: "disasters_ns stmt list" where
  "disasters_cell_7 =
     [\<lambda>L s. ebind (need (d_disasters_model s)) (\<lambda>m.
         ebind (pm_sample L m 1000 1000
                  \<lparr>cores = None, chains = Some 2, random_seed = None\<rparr>) (\<lambda>tr.
           Inr (s\<lparr>d_trace := Some tr\<rparr>)))]"

definition disasters_cell_8 :: "disasters_ns stmt list" where
  "disasters_cell_8 =
     [\<lambda>L s. ebind (need (d_trace s)) (\<lambda>tr.
         ebind (lib_plot L (PlotPosterior tr [''rho'', ''eta''])) (\<lambda>_. Inr s))]"

definition disasters_cell_9 :: "disasters_ns stmt list" where
  "disasters_cell_9 =
     [\<lambda>L s. ebind (need (d_year s)) (\<lambda>yr.
         ebind (amin yr) (\<lambda>m. Inr (s\<lparr>d_years := Some (sub_scalar yr m)\<rparr>)))]"

definition disasters_cell_10 :: "disasters_ns stmt list" where
  "disasters_cell_10 =
     [\<lambda>L s. ebind (need (d_disasters_model s)) (\<lambda>m.
         ebind (need (d_trace s)) (\<lambda>tr.
         ebind (need (d_f s)) (\<lambda>f.
         ebind (pm_sample_posterior_predictive L m tr [f] 1000 None) (\<lambda>pp.
           Inr (s\<lparr>d_y_pred := Some pp\<rparr>)))))]"

text \<open>
  Cell 11:
  \<^verbatim>\<open>
  fig, ax = plt.subplots(figsize=(12,5))
  pm.gp.util.plot_gp_dist(ax, np.exp(y_pred["f"]), year[:, None])
  sns.regplot(year, disasters_data, fit_reg=False, ax=ax)
  ax.set_xlim(year.min(), year.max())
  ax.set_ylabel('Disaster rate');
  \<close>
\<close>

definition disasters_cell_11 :: "disasters_ns stmt list" where
  "disasters_cell_11 =
     [\<lambda>L s. ebind (lib_plot L (Subplots 12 5)) (\<lambda>_. Inr s),
      \<lambda>L s. ebind (need (d_y_pred s)) (\<lambda>pp.
         ebind (samples_of pp ''f'') (\<lambda>rows.
         ebind (need (d_year s)) (\<lambda>yr.
         ebind (lib_plot L (PlotGpDist (map (map exp) rows)
                  (A2 (reshape_col (map real_of_int yr))))) (\<lambda>_. Inr s)))),
      \<lambda>L s. ebind (need (d_year s)) (\<lambda>yr.
         ebind (need (d_disasters_data s)) (\<lambda>dd.
         ebind (lib_plot L (Regplot (map real_of_int yr) (map real_of_int dd) False))
           (\<lambda>_. Inr s))),
      \<lambda>L s. ebind (need (d_year s)) (\<lambda>yr.
         ebind (amin yr) (\<lambda>lo.
         ebind (amax yr) (\<lambda>hi.
         ebind (lib_plot L (SetXlim (real_of_int lo) (real_of_int hi))) (\<lambda>_. Inr s)))),
      \<lambda>L s. ebind (lib_plot L (SetYlabel ''Disaster rate'')) (\<lambda>_. Inr s)]"

definition disasters_cells :: "disasters_ns stmt list list" where
  "disasters_cells =
     [disasters_cell_1, disasters_cell_2, disasters_cell_3, disasters_cell_4,
      disasters_cell_5, disasters_cell_6, disasters_cell_7, disasters_cell_8,
      disasters_cell_9, disasters_cell_10, disasters_cell_11]"

definition disasters_run :: "lib \<Rightarrow> nat \<Rightarrow> py_error + disasters_ns" where
  "disasters_run L k = run_stmts L (concat (take k disasters_cells)) disasters_init"

definition disasters_notebook :: "lib \<Rightarrow> py_error + disasters_ns" where
  "disasters_notebook L = disasters_run L (length disasters_cells)"

section \<open>Statements that leave a part of the namespace alone\<close>

text \<open>A statement keeps \<open>f\<close> when completing it never changes the value of \<open>f\<close>.\<close>

definition keeps :: "('s \<Rightarrow> 'a) \<Rightarrow> 's stmt \<Rightarrow> bool" where
  "keeps f c = (\<forall>L s s'. c L s = Inr s' \<longrightarrow> f s' = f s)"

text \<open>The loaded table, the list of files read and the warnings filter.\<close>

definition salmon_fixed :: "salmon_ns \<Rightarrow> string list \<times> string list \<times> table option" where
  "salmon_fixed s = (s_warnings s, s_file_reads s, s_salmon_data s)"

definition disasters_fixed :: "disasters_ns \<Rightarrow> string list \<times> string list \<times> int list option" where
  "disasters_fixed s = (d_warnings s, d_file_reads s, d_disasters_data s)"

text \<open>A library in which every call succeeds, one in which the file is missing, and one
  in which drawing fails.\<close>

definition lib_ok :: lib where
  "lib_ok =
     \<lparr>pd_read_table = (\<lambda>path sep idx. Inr [(''spawners'', [2, 4]), (''recruits'', [6, 4])]),
      dist_random = (\<lambda>d n. Inr []),
      pm_sample = (\<lambda>m draws tune opts. Inr [(''beta'', [])]),
      pm_sample_posterior_predictive = (\<lambda>m tr vars n seed.
         Inr [(''salmon_pred'', []), (''salmon_pred_noise'', []), (''f'', [])]),
      lib_plot = (\<lambda>c. Inr ())\<rparr>"



section \<open>The operations of a notebook that can fail, in the order of the source\<close>

text \<open>
  The outcome of an operation, its value dropped; the first error in a list of
  outcomes; the error of a run, if it raised.
\<close>

definition void :: "py_error + 'a \<Rightarrow> py_error + unit" where
  "void m = (case m of Inl e \<Rightarrow> Inl e | Inr v \<Rightarrow> Inr ())"

fun first_error :: "(py_error + unit) list \<Rightarrow> py_error option" where
  "first_error [] = None"
| "first_error (Inl e # r) = Some e"
| "first_error (Inr u # r) = first_error r"





definition finish :: "(py_error + unit) list \<Rightarrow> 's \<Rightarrow> py_error + 's" where
  "finish steps s = (case first_error steps of Some e \<Rightarrow> Inl e | None \<Rightarrow> Inr s)"

section \<open>Statements that do not read a name, and statements that only draw\<close>





section \<open>Facts about the array operations\<close>

lemma length_arange: "length (arange a b) = nat (b - a)"
  by (simp add: arange_def)

lemma arange_upto: "arange a b = [a..b - 1]"
proof (rule nth_equalityI)
  show "length (arange a b) = length [a..b - 1]"
    by (simp add: arange_def)
next
  fix i assume "i < length (arange a b)"
  then have "i < nat (b - a)" by (simp add: arange_def)
  then show "arange a b ! i = [a..b - 1] ! i"
    by (simp add: arange_def)
qed

lemma fold_min_lower:
  fixes m :: int
  shows "\<forall>v \<in> set xs. m \<le> v \<Longrightarrow> fold min xs m = m"
  by (induction xs) (simp_all add: min_absorb2)

lemma amin_arange: "a < b \<Longrightarrow> amin (arange a b) = Inr a"
proof -
  assume lt: "a < b"
  then obtain n where n: "nat (b - a) = Suc n"
    by (cases "nat (b - a)") auto
  have "arange a b = a # map (\<lambda>i. a + int i) [Suc 0..<Suc n]"
    by (simp add: arange_def n upt_conv_Cons del: upt_Suc)
  moreover have "fold min (map (\<lambda>i. a + int i) [Suc 0..<Suc n]) a = a"
    by (rule fold_min_lower) auto
  ultimately show ?thesis
    by (simp add: amin_def)
qed

lemma sub_scalar_arange: "sub_scalar (arange a b) a = map int [0..<nat (b - a)]"
  by (simp add: sub_scalar_def arange_def)

lemma year_upto: "year = [1851..1961]"
  by (simp add: year_def arange_upto)

lemma year_ind_value: "year_ind = Inr (map (\<lambda>k. [k]) [0..110])"
proof -
  have m: "amin year = Inr 1851"
    unfolding year_def by (rule amin_arange) simp
  have "sub_scalar year 1851 = map int [0..<111]"
    unfolding year_def by (simp add: sub_scalar_arange)
  also have "\<dots> = [0..110]"
    by (rule nth_equalityI) simp_all
  finally have s: "sub_scalar year 1851 = [0..110]" .
  show ?thesis
    by (simp add: year_ind_def year_ind_of_def m s reshape_col_def)
qed

section \<open>The disaster counts and the years\<close>

text \<open>
  Claim C1. The disaster-count array of the coal-mining notebook has length 111,
  and the year array it is paired with has the same length.
\<close>

theorem disasters_data_length:
  "length disasters_data = 111 \<and> length year = length disasters_data"
  by (simp add: disasters_data_def year_def length_arange)

text \<open>
  Claim C10. The year array holds exactly the consecutive years 1851 to 1961
  (1962, the endpoint of arange, is excluded); the year-index column holds the
  consecutive integers 0 to 110, one per row, so it has 111 rows, as many as there
  are disaster counts.
\<close>

theorem year_and_year_ind:
  "year = [1851..1961] \<and> set year = {1851..1961} \<and> 1962 \<notin> set year
   \<and> year_ind = Inr (map (\<lambda>k. [k]) [0..110])
   \<and> map length (projr year_ind) = replicate 111 1
   \<and> length (projr year_ind) = length disasters_data"
proof -
  have rows: "map length (projr year_ind) = replicate 111 1"
    by (simp add: year_ind_value comp_def map_replicate_const)
  have len: "length (projr year_ind) = length disasters_data"
    by (simp add: year_ind_value disasters_data_def)
  have st: "set year = {1851..1961}"
    unfolding year_upto by (rule set_upto)
  have ex: "1962 \<notin> set year"
    unfolding st by simp
  from year_upto st ex year_ind_value rows len show ?thesis by (intro conjI)
qed

section \<open>The quadratic regression model\<close>

lemma quad_mu_eval:
  "quad_mu (t_var ''beta'') x (env(''beta'' := Vec [b0, b1, b2]))
     = Inr (Vec (map (\<lambda>v. b0 + b1 * v + b2 * v\<^sup>2) x))"
  by (simp add: quad_mu_def t_add_def t_mul_def t_binop_def t_index_def t_var_def t_data_def
        ebind_def np_pow_def zip_map2 zip_map1 zip_same_conv_map)

text \<open>
  Claim C6. The polynomial-regression model of the salmon notebook declares a
  coefficient vector of shape 3 with a Normal(0, 50) prior and a noise scale with a
  HalfNormal(50) prior; the mean of the observed recruits is, at every spawner count
  \<open>v\<close> of the data, the degree-2 polynomial \<open>b0 + b1 * v + b2 * v\<^sup>2\<close> in the three
  coefficients.
\<close>

theorem quad_salmon_model_spec:
  "quad_salmon_model x y =
     [\<lparr>rv_name = ''beta'', rv_dist = Normal (Num 0) (Num 50), rv_shape = Some 3,
       rv_observed = None\<rparr>,
      \<lparr>rv_name = ''sigma'', rv_dist = HalfNormal (Num 50), rv_shape = None,
       rv_observed = None\<rparr>,
      \<lparr>rv_name = ''recruits'',
       rv_dist = Normal (Sym (quad_mu (t_var ''beta'') x)) (Sym (t_var ''sigma'')),
       rv_shape = None, rv_observed = Some y\<rparr>]
   \<and> quad_mu (t_var ''beta'') x (env(''beta'' := Vec [b0, b1, b2]))
       = Inr (Vec (map (\<lambda>v. b0 + b1 * v + b2 * v\<^sup>2) x))"
  by (simp add: quad_salmon_model_def declare_rv_def quad_mu_eval)

section \<open>The Poisson likelihood of the disasters model\<close>

text \<open>
  Claim C5. The count-data model has a Poisson likelihood with a log link: the
  observed variable is Poisson, observed at the disaster counts, with a rate that is
  the elementwise exponential of the latent Gaussian-process variable \<open>f\<close> (so the
  logarithm of the rate is \<open>f\<close>); the same tensor is registered as the deterministic
  variable \<open>lambda\<close>.
\<close>

theorem disasters_likelihood:
  "disasters_model =
     Inr [\<lparr>rv_name = ''rho'', rv_dist = Exponential (Num 1), rv_shape = None,
           rv_observed = None\<rparr>,
          \<lparr>rv_name = ''eta'', rv_dist = Exponential (Num 1), rv_shape = None,
           rv_observed = None\<rparr>,
          \<lparr>rv_name = ''f'',
           rv_dist = GPLatentPrior ZeroMean
              (ScaledCov (t_pow (t_var ''eta'') 2) (ExpQuad 1 (Sym (t_var ''rho''))))
              (map (\<lambda>k. [real_of_int k]) [0..110]),
           rv_shape = None, rv_observed = None\<rparr>,
          \<lparr>rv_name = ''lambda'', rv_dist = Deterministic (t_exp (t_var ''f'')),
           rv_shape = None, rv_observed = None\<rparr>,
          \<lparr>rv_name = ''confirmation'', rv_dist = Poisson (Sym (t_exp (t_var ''f''))),
           rv_shape = None, rv_observed = Some (map real_of_int disasters_data)\<rparr>]
   \<and> t_exp (t_var ''f'') (env(''f'' := Vec fs)) = Inr (Vec (map exp fs))
   \<and> map ln (map exp fs) = fs"
  by (simp add: disasters_model_def disasters_model_1_def disasters_model_2_def
      disasters_model_3_def gp_prior_def declare_rv_def pm_Deterministic_def year_ind_value
      ebind_def t_exp_def t_var_def comp_def Let_def del: upto.simps)

section \<open>The coefficient of the Gaussian-process mean function\<close>

lemma series_div_finite_iff:
  "length r = length s \<Longrightarrow>
     (\<forall>q \<in> set (series_div r s). is_finite q) \<longleftrightarrow> (\<forall>v \<in> set s. v \<noteq> 0)"
proof (induction r s rule: list_induct2)
  case Nil
  then show ?case by (simp add: series_div_def)
next
  case (Cons a r b s)
  then show ?case by (auto simp: series_div_def fdiv_def)
qed

lemma series_div_nonzero:
  "length r = length s \<Longrightarrow> \<forall>v \<in> set s. v \<noteq> 0 \<Longrightarrow>
     series_div r s = map Finite (map2 (/) r s)"
proof (induction r s rule: list_induct2)
  case Nil
  then show ?case by (simp add: series_div_def)
next
  case (Cons a r b s)
  then show ?case by (simp add: series_div_def fdiv_def)
qed

lemma foldl_fadd_Finite:
  "foldl fadd (Finite a) (map Finite xs) = Finite (a + sum_list xs)"
  by (induction xs arbitrary: a) (simp_all add: add.assoc)

lemma series_mean_Finite:
  "xs \<noteq> [] \<Longrightarrow> series_mean (map Finite xs) = Finite (sum_list xs / real (length xs))"
proof -
  assume ne: "xs \<noteq> []"
  have f: "filter (\<lambda>q. q \<noteq> NaN) (map Finite xs) = map Finite xs"
    by (induction xs) simp_all
  show ?thesis
    using ne by (simp add: series_mean_def f foldl_fadd_Finite)
qed

lemma fadd_not_finite_left: "\<not> is_finite a \<Longrightarrow> \<not> is_finite (fadd a b)"
  by (cases a; cases b) simp_all

lemma fadd_not_finite_right: "\<not> is_finite b \<Longrightarrow> \<not> is_finite (fadd a b)"
  by (cases a; cases b) simp_all

lemma foldl_fadd_not_finite:
  "\<not> is_finite acc \<or> (\<exists>q \<in> set vs. \<not> is_finite q) \<Longrightarrow> \<not> is_finite (foldl fadd acc vs)"
proof (induction vs arbitrary: acc)
  case Nil
  then show ?case by simp
next
  case (Cons v vs)
  have "\<not> is_finite (fadd acc v) \<or> (\<exists>q \<in> set vs. \<not> is_finite q)"
    using Cons.prems fadd_not_finite_left fadd_not_finite_right by auto
  then show ?case using Cons.IH by simp
qed

lemma fdiv_count_not_finite: "\<not> is_finite v \<Longrightarrow> \<not> is_finite (fdiv_count v n)"
  by (cases v) simp_all

lemma series_mean_infinite:
  assumes "q \<in> set qs" "q = PosInf \<or> q = NegInf"
  shows "\<not> is_finite (series_mean qs)"
proof -
  let ?vs = "filter (\<lambda>q. q \<noteq> NaN) qs"
  have mem: "q \<in> set ?vs" using assms by auto
  then have ne: "?vs \<noteq> []" by (metis empty_iff empty_set)
  have "\<not> is_finite q" using assms(2) by auto
  with mem have "\<not> is_finite (foldl fadd (Finite 0) ?vs)"
    by (intro foldl_fadd_not_finite) blast
  then show ?thesis
    using ne by (simp add: series_mean_def Let_def fdiv_count_not_finite)
qed

text \<open>
  Claim C9. The coefficient of the Gaussian-process mean function is the mean of the
  elementwise quotient recruits / spawners, computed with no guard against a zero
  spawner count: the computation never raises, every quotient is a finite number
  exactly when every spawner count is nonzero, under that precondition the
  coefficient is the mean of the quotients, and a zero spawner count with a nonzero
  recruit count makes the coefficient infinite or not a number.
\<close>

theorem gp_mean_coeff_needs_nonzero_spawners:
  assumes "map_of salmon_data ''recruits'' = Some r"
      and "map_of salmon_data ''spawners'' = Some s"
      and "length r = length s" and "s \<noteq> []"
  shows "gp_mean_coeff salmon_data = Inr (series_mean (series_div r s))
     \<and> ((\<forall>q \<in> set (series_div r s). is_finite q) \<longleftrightarrow> (\<forall>v \<in> set s. v \<noteq> 0))
     \<and> ((\<forall>v \<in> set s. v \<noteq> 0) \<longrightarrow>
          series_mean (series_div r s) = Finite (sum_list (map2 (/) r s) / real (length s)))
     \<and> ((\<exists>i < length s. s ! i = 0 \<and> r ! i \<noteq> 0) \<longrightarrow>
          \<not> is_finite (series_mean (series_div r s)))"
proof (intro conjI impI)
  show "gp_mean_coeff salmon_data = Inr (series_mean (series_div r s))"
    using assms(1,2) by (simp add: gp_mean_coeff_def get_attr_def ebind_def)
  show "(\<forall>q \<in> set (series_div r s). is_finite q) \<longleftrightarrow> (\<forall>v \<in> set s. v \<noteq> 0)"
    using assms(3) by (rule series_div_finite_iff)
next
  assume nz: "\<forall>v \<in> set s. v \<noteq> 0"
  have ne: "map2 (/) r s \<noteq> []" using assms(3,4) by (cases r; cases s) simp_all
  have "series_mean (series_div r s) = series_mean (map Finite (map2 (/) r s))"
    using assms(3) nz by (simp add: series_div_nonzero)
  also have "\<dots> = Finite (sum_list (map2 (/) r s) / real (length (map2 (/) r s)))"
    using ne by (rule series_mean_Finite)
  finally show "series_mean (series_div r s) = Finite (sum_list (map2 (/) r s) / real (length s))"
    using assms(3) by simp
next
  assume "\<exists>i < length s. s ! i = 0 \<and> r ! i \<noteq> 0"
  then obtain i where i: "i < length s" "s ! i = 0" "r ! i \<noteq> 0" by blast
  have len: "length (series_div r s) = length s"
    using assms(3) by (simp add: series_div_def)
  have "series_div r s ! i = fdiv (r ! i) (s ! i)"
    using i(1) assms(3) by (simp add: series_div_def)
  then have inf: "series_div r s ! i = PosInf \<or> series_div r s ! i = NegInf"
    using i(2,3) by (auto simp: fdiv_def)
  have mem: "series_div r s ! i \<in> set (series_div r s)"
    using nth_mem[of i "series_div r s"] i(1) len by simp
  from mem inf show "\<not> is_finite (series_mean (series_div r s))"
    by (rule series_mean_infinite)
qed

theorem gp_mean_coeff_needs_nonzero_spawners_witness:
  "gp_mean_coeff [(''spawners'', [2, 4]), (''recruits'', [6, 4])] = Inr (Finite 2)
   \<and> series_div [6, 4] [2, 4] = [Finite 3, Finite 1]
   \<and> gp_mean_coeff [(''spawners'', [0, 4]), (''recruits'', [6, 4])] = Inr PosInf
   \<and> series_div [6, 4] [0, 4] = [PosInf, Finite 1]"
  using gp_mean_coeff_needs_nonzero_spawners
          [of "[(''spawners'', [2, 4]), (''recruits'', [6, 4])]" "[6, 4]" "[2, 4]"]
        gp_mean_coeff_needs_nonzero_spawners
          [of "[(''spawners'', [0, 4]), (''recruits'', [6, 4])]" "[6, 4]" "[0, 4]"]
  by (simp add: series_div_def fdiv_def series_mean_def)

section \<open>Which model arguments depend on the loaded data\<close>

lemma gp_salmon_model_nums:
  assumes "gp_salmon_model d = Inr (gp, m)"
  shows "\<exists>c. gp_mean_coeff d = Inr c
           \<and> model_nums m = [Finite 5, Finite 5, Finite 50, c, Finite 1]"
proof -
  obtain c where c: "gp_mean_coeff d = Inr c"
    using assms by (cases "gp_mean_coeff d") (simp_all add: gp_salmon_model_def declare_rv_def ebind_def)
  obtain sp where sp: "get_attr d ''spawners'' = Inr sp"
    using assms c
    by (cases "get_attr d ''spawners''") (simp_all add: gp_salmon_model_def declare_rv_def ebind_def)
  obtain re where re: "get_attr d ''recruits'' = Inr re"
    using assms c sp
    by (cases "get_attr d ''recruits''") (simp_all add: gp_salmon_model_def declare_rv_def ebind_def)
  have "model_nums m = [Finite 5, Finite 5, Finite 50, c, Finite 1]"
    using assms c sp re
    by (auto simp: gp_salmon_model_def declare_rv_def ebind_def gp_marginal_likelihood_def
          model_nums_def rv_nums_def Let_def)
  with c show ?thesis by blast
qed

text \<open>
  Claim C3, as stated, fails: the coefficient of the linear mean function of the
  salmon Gaussian-process model is computed from the loaded table. Two tables that
  differ in one recruit count give models with different numeric arguments.
\<close>

theorem gp_salmon_model_argument_from_data:
  "map_sum id (model_nums \<circ> snd) (gp_salmon_model [(''spawners'', [1]), (''recruits'', [1])])
     = Inr [Finite 5, Finite 5, Finite 50, Finite 1, Finite 1]
   \<and> map_sum id (model_nums \<circ> snd) (gp_salmon_model [(''spawners'', [1]), (''recruits'', [2])])
     = Inr [Finite 5, Finite 5, Finite 50, Finite 2, Finite 1]
   \<and> map_sum id (model_nums \<circ> snd) (gp_salmon_model [(''spawners'', [1]), (''recruits'', [1])])
     \<noteq> map_sum id (model_nums \<circ> snd) (gp_salmon_model [(''spawners'', [1]), (''recruits'', [2])])"
  by (simp add: gp_salmon_model_def declare_rv_def ebind_def gp_marginal_likelihood_def
        gp_mean_coeff_def get_attr_def series_div_def series_mean_def fdiv_def
        model_nums_def rv_nums_def Let_def)

text \<open>
  Claim C3, amended. Every number given to the declarations of the four models is
  a fixed constant, whatever the data, except the coefficient of the linear mean
  function of the salmon Gaussian-process model, which is the mean of
  recruits / spawners of the loaded table.
\<close>

theorem model_arguments_constant_but_gp_mean:
  "model_nums (linear_salmon_model x y) = [Finite 0, Finite 50, Finite 2, Finite 50]
   \<and> model_nums (quad_salmon_model x y) = [Finite 0, Finite 50, Finite 3, Finite 50]
   \<and> map_sum id model_nums disasters_model = Inr [Finite 1, Finite 1, Finite 1]
   \<and> (gp_salmon_model d = Inr (gp, m) \<longrightarrow>
        (\<exists>c. gp_mean_coeff d = Inr c
           \<and> model_nums m = [Finite 5, Finite 5, Finite 50, c, Finite 1]))"
proof (intro conjI impI)
  show "model_nums (linear_salmon_model x y) = [Finite 0, Finite 50, Finite 2, Finite 50]"
    by (simp add: linear_salmon_model_def declare_rv_def model_nums_def rv_nums_def)
  show "model_nums (quad_salmon_model x y) = [Finite 0, Finite 50, Finite 3, Finite 50]"
    by (simp add: quad_salmon_model_def declare_rv_def model_nums_def rv_nums_def)
  show "map_sum id model_nums disasters_model = Inr [Finite 1, Finite 1, Finite 1]"
    by (simp add: disasters_model_def disasters_model_1_def disasters_model_2_def
        disasters_model_3_def gp_prior_def declare_rv_def pm_Deterministic_def year_ind_value
        ebind_def model_nums_def rv_nums_def Let_def del: upto.simps)
next
  assume "gp_salmon_model d = Inr (gp, m)"
  then show "\<exists>c. gp_mean_coeff d = Inr c
           \<and> model_nums m = [Finite 5, Finite 5, Finite 50, c, Finite 1]"
    by (rule gp_salmon_model_nums)
qed

theorem model_arguments_constant_but_gp_mean_witness:
  "gp_mean_coeff [(''spawners'', [2, 4]), (''recruits'', [6, 4])] = Inr (Finite 2)
   \<and> model_nums (snd (projr (gp_salmon_model [(''spawners'', [2, 4]), (''recruits'', [6, 4])])))
       = [Finite 5, Finite 5, Finite 50, Finite 2, Finite 1]"
proof -
  let ?d = "[(''spawners'', [2, 4::real]), (''recruits'', [6, 4::real])]"
  obtain gp m where gm: "gp_salmon_model ?d = Inr (gp, m)"
    by (simp add: gp_salmon_model_def declare_rv_def ebind_def gp_marginal_likelihood_def
        gp_mean_coeff_def get_attr_def Let_def)
  have c: "gp_mean_coeff ?d = Inr (Finite 2)"
    by (simp add: gp_mean_coeff_def get_attr_def ebind_def series_div_def series_mean_def fdiv_def)
  from model_arguments_constant_but_gp_mean[of _ _ ?d gp m] gm c
  have "model_nums m = [Finite 5, Finite 5, Finite 50, Finite 2, Finite 1]"
    by simp
  with gm c show ?thesis by simp
qed

section \<open>Facts about running statements\<close>

lemma ebind_Inr_iff: "ebind m f = Inr b \<longleftrightarrow> (\<exists>a. m = Inr a \<and> f a = Inr b)"
  by (cases m) (simp_all add: ebind_def)

lemma ebind_Inl_iff: "ebind m f = Inl e \<longleftrightarrow> m = Inl e \<or> (\<exists>a. m = Inr a \<and> f a = Inl e)"
  by (cases m) (simp_all add: ebind_def)

lemma need_Inr_iff: "need v = Inr a \<longleftrightarrow> v = Some a"
  by (cases v) (simp_all add: need_def)

lemma run_stmts_append:
  "run_stmts L (as @ bs) s = ebind (run_stmts L as s) (run_stmts L bs)"
proof (induction as arbitrary: s)
  case Nil
  then show ?case by (simp add: ebind_def)
next
  case (Cons a as)
  then show ?case by (cases "a L s") (simp_all add: ebind_def)
qed

lemma run_stmts_keeps:
  assumes "\<forall>c \<in> set cs. keeps f c" and "run_stmts L cs s = Inr s'"
  shows "f s' = f s"
  using assms
proof (induction cs arbitrary: s)
  case Nil
  then show ?case by simp
next
  case (Cons c cs)
  from Cons.prems(2) obtain s1 where s1: "c L s = Inr s1" "run_stmts L cs s1 = Inr s'"
    by (auto simp: ebind_Inr_iff)
  have "f s1 = f s" using Cons.prems(1) s1(1) by (simp add: keeps_def)
  moreover have "f s' = f s1" using Cons.IH Cons.prems(1) s1(2) by simp
  ultimately show ?case by simp
qed

lemma for_each_keeps:
  assumes "\<And>a s s'. body a s = Inr s' \<Longrightarrow> f s' = f s" and "for_each xs body s = Inr s'"
  shows "f s' = f s"
  using assms(2)
proof (induction xs arbitrary: s)
  case Nil
  then show ?case by simp
next
  case (Cons a xs)
  from Cons.prems obtain s1 where s1: "body a s = Inr s1" "for_each xs body s1 = Inr s'"
    by (auto simp: ebind_Inr_iff)
  have "f s1 = f s" using assms(1) s1(1) .
  moreover have "f s' = f s1" using Cons.IH s1(2) .
  ultimately show ?case by simp
qed


section \<open>What the statements of the salmon notebook leave alone\<close>

lemmas stmt_simps = keeps_def salmon_fixed_def disasters_fixed_def
  ebind_Inr_iff need_Inr_iff

lemma keeps_scatter: "keeps salmon_fixed (scatter_salmon c)"
  by (auto simp: scatter_salmon_def stmt_simps)

lemma keeps_plot_linear_draws: "keeps salmon_fixed plot_linear_draws"
proof (unfold keeps_def, intro allI impI)
  fix L s s' assume "plot_linear_draws L s = Inr s'"
  then obtain rows body where
    "for_each (take 20 rows) (\<lambda>row s.
         ebind (unpack2 row) (\<lambda>(b0, b1).
         ebind (need (s_X_pred s)) (\<lambda>xp.
         ebind (lib_plot L (AxPlot xp (map (\<lambda>v. b0 + b1 * v) xp)
                  (Some 0.3) (Some ''seagreen''))) (\<lambda>_. Inr s)))) s = Inr s'"
    by (auto simp: plot_linear_draws_def ebind_Inr_iff)
  then show "salmon_fixed s' = salmon_fixed s"
    by (rule for_each_keeps[rotated]) (auto simp: ebind_Inr_iff split: prod.splits)
qed

lemma keeps_plot_quad_draws: "keeps salmon_fixed plot_quad_draws"
proof (unfold keeps_def, intro allI impI)
  fix L s s' assume "plot_quad_draws L s = Inr s'"
  then obtain rows body where
    "for_each (take 20 rows) (\<lambda>row s.
         ebind (unpack3 row) (\<lambda>(b0, b1, b2).
         ebind (need (s_X_pred s)) (\<lambda>xp.
         ebind (lib_plot L (AxPlot xp (map (\<lambda>v. b0 + b1 * v + b2 * v\<^sup>2) xp)
                  (Some 0.3) (Some ''seagreen''))) (\<lambda>_. Inr s)))) s = Inr s'"
    by (auto simp: plot_quad_draws_def ebind_Inr_iff)
  then show "salmon_fixed s' = salmon_fixed s"
    by (rule for_each_keeps[rotated]) (auto simp: ebind_Inr_iff split: prod.splits)
qed

lemma keeps_plot_gp_draws: "keeps salmon_fixed plot_gp_draws"
proof (unfold keeps_def, intro allI impI)
  fix L s s' assume "plot_gp_draws L s = Inr s'"
  then obtain rows body where
    "for_each rows (\<lambda>row s.
         let s1 = s\<lparr>s_x := Some row\<rparr>
         in ebind (need (s_X_pred s1)) (\<lambda>xp.
            ebind (need (s_x s1)) (\<lambda>x.
            ebind (lib_plot L (AxPlot xp x None None)) (\<lambda>_. Inr s1)))) s = Inr s'"
    by (auto simp: plot_gp_draws_def ebind_Inr_iff)
  then show "salmon_fixed s' = salmon_fixed s"
    by (rule for_each_keeps[rotated]) (auto simp: ebind_Inr_iff salmon_fixed_def Let_def)
qed

lemma keeps_salmon_rest: "\<forall>c \<in> set (concat (drop 2 salmon_cells)). keeps salmon_fixed c"
proof -
  have "\<forall>c \<in> set salmon_cell_3. keeps salmon_fixed c"
    by (auto simp: salmon_cell_3_def stmt_simps)
  moreover have "\<forall>c \<in> set salmon_cell_4. keeps salmon_fixed c"
    by (auto simp: salmon_cell_4_def stmt_simps)
  moreover have "\<forall>c \<in> set salmon_cell_5. keeps salmon_fixed c"
    by (auto simp: salmon_cell_5_def stmt_simps)
  moreover have "\<forall>c \<in> set salmon_cell_6. keeps salmon_fixed c"
    by (auto simp: salmon_cell_6_def stmt_simps)
  moreover have "\<forall>c \<in> set salmon_cell_7. keeps salmon_fixed c"
    by (auto simp: salmon_cell_7_def stmt_simps)
  moreover have "\<forall>c \<in> set salmon_cell_8. keeps salmon_fixed c"
    by (auto simp: salmon_cell_8_def stmt_simps)
  moreover have "\<forall>c \<in> set salmon_cell_9. keeps salmon_fixed c"
    using keeps_scatter keeps_plot_linear_draws by (auto simp: salmon_cell_9_def stmt_simps)
  moreover have "\<forall>c \<in> set salmon_cell_10. keeps salmon_fixed c"
    by (auto simp: salmon_cell_10_def stmt_simps)
  moreover have "\<forall>c \<in> set salmon_cell_11. keeps salmon_fixed c"
    by (auto simp: salmon_cell_11_def stmt_simps)
  moreover have "\<forall>c \<in> set salmon_cell_12. keeps salmon_fixed c"
    using keeps_scatter keeps_plot_quad_draws by (auto simp: salmon_cell_12_def stmt_simps)
  moreover have "\<forall>c \<in> set salmon_cell_13. keeps salmon_fixed c"
    by (auto simp: salmon_cell_13_def stmt_simps)
  moreover have "\<forall>c \<in> set salmon_cell_14. keeps salmon_fixed c"
    by (auto simp: salmon_cell_14_def stmt_simps)
  moreover have "\<forall>c \<in> set salmon_cell_15. keeps salmon_fixed c"
    by (auto simp: salmon_cell_15_def stmt_simps)
  moreover have "\<forall>c \<in> set salmon_cell_16. keeps salmon_fixed c"
    by (auto simp: salmon_cell_16_def stmt_simps Let_def gp_conditional_def declare_rv_def)
  moreover have "\<forall>c \<in> set salmon_cell_17. keeps salmon_fixed c"
    using keeps_scatter keeps_plot_gp_draws by (auto simp: salmon_cell_17_def stmt_simps)
  moreover have "\<forall>c \<in> set salmon_cell_18. keeps salmon_fixed c"
    by (auto simp: salmon_cell_18_def stmt_simps)
  moreover have "\<forall>c \<in> set (plot_salmon_gp n). keeps salmon_fixed c" for n
    using keeps_scatter by (auto simp: plot_salmon_gp_def stmt_simps)
  moreover have "\<forall>c \<in> set salmon_cell_20. keeps salmon_fixed c"
    by (auto simp: salmon_cell_20_def stmt_simps Let_def gp_conditional_def declare_rv_def)
  ultimately show ?thesis
    by (simp add: salmon_cells_def salmon_cell_19_def salmon_cell_21_def salmon_cell_22_def ball_Un)
qed

section \<open>The namespace after a run of the first cells\<close>

lemma set_concat_take: "c \<in> set (concat (take n xs)) \<Longrightarrow> c \<in> set (concat xs)"
  by (auto dest: in_set_takeD)

lemma take_two: "2 \<le> k \<Longrightarrow> take k (a # b # r) = a # b # take (k - 2) r"
  by (cases k rule: nat.exhaust; simp) (cases "k - 1"; simp)

lemma salmon_cells_split: "salmon_cells = salmon_cell_1 # salmon_cell_2 # drop 2 salmon_cells"
  by (simp add: salmon_cells_def)

lemma salmon_run_1:
  "salmon_run L 1 = Inr (salmon_init\<lparr>s_warnings := [''ignore'']\<rparr>)"
  by (simp add: salmon_run_def salmon_cells_def salmon_cell_1_def salmon_init_def ebind_def)

lemma salmon_run_split:
  assumes "2 \<le> k"
  shows "salmon_run L k =
      ebind (run_stmts L (salmon_cell_1 @ salmon_cell_2) salmon_init)
        (run_stmts L (concat (take (k - 2) (drop 2 salmon_cells))))"
proof -
  have "take k salmon_cells = salmon_cell_1 # salmon_cell_2 # take (k - 2) (drop 2 salmon_cells)"
    using assms by (subst salmon_cells_split) (rule take_two)
  then have "concat (take k salmon_cells) =
      (salmon_cell_1 @ salmon_cell_2) @ concat (take (k - 2) (drop 2 salmon_cells))"
    by simp
  then show ?thesis
    by (simp only: salmon_run_def run_stmts_append)
qed

lemma salmon_run_fixed:
  assumes "2 \<le> k" and "salmon_run L k = Inr s"
  shows "\<exists>d. pd_read_table L ''../data/salmon.txt'' whitespace_sep 0 = Inr d
           \<and> salmon_fixed s = ([''ignore''], [''../data/salmon.txt''], Some d)"
proof -
  let ?rest = "concat (take (k - 2) (drop 2 salmon_cells))"
  from assms obtain s2
    where s2: "run_stmts L (salmon_cell_1 @ salmon_cell_2) salmon_init = Inr s2"
    and rest: "run_stmts L ?rest s2 = Inr s"
    by (auto simp: salmon_run_split ebind_Inr_iff)
  from s2 obtain d where d: "pd_read_table L ''../data/salmon.txt'' whitespace_sep 0 = Inr d"
    and f2: "salmon_fixed s2 = ([''ignore''], [''../data/salmon.txt''], Some d)"
    by (auto simp: salmon_cell_1_def salmon_cell_2_def scatter_salmon_def salmon_init_def
          salmon_fixed_def ebind_Inr_iff need_Inr_iff)
  have "\<forall>c \<in> set ?rest. keeps salmon_fixed c"
  proof
    fix c assume "c \<in> set ?rest"
    then have "c \<in> set (concat (drop 2 salmon_cells))"
      by (rule set_concat_take)
    with keeps_salmon_rest show "keeps salmon_fixed c"
      by (rule bspec)
  qed
  then have "salmon_fixed s = salmon_fixed s2"
    using rest by (rule run_stmts_keeps)
  with d f2 show ?thesis by simp
qed

lemma keeps_disasters_rest:
  "\<forall>c \<in> set (concat (drop 2 disasters_cells)). keeps disasters_fixed c"
proof -
  have "\<forall>c \<in> set disasters_cell_3. keeps disasters_fixed c"
    by (auto simp: disasters_cell_3_def stmt_simps)
  moreover have "\<forall>c \<in> set disasters_cell_4. keeps disasters_fixed c"
    by (auto simp: disasters_cell_4_def stmt_simps disasters_model_1_def declare_rv_def Let_def)
  moreover have "\<forall>c \<in> set disasters_cell_5. keeps disasters_fixed c"
    by (auto simp: disasters_cell_5_def stmt_simps disasters_model_2_def gp_prior_def declare_rv_def)
  moreover have "\<forall>c \<in> set disasters_cell_6. keeps disasters_fixed c"
    by (auto simp: disasters_cell_6_def stmt_simps)
  moreover have "\<forall>c \<in> set disasters_cell_7. keeps disasters_fixed c"
    by (auto simp: disasters_cell_7_def stmt_simps)
  moreover have "\<forall>c \<in> set disasters_cell_8. keeps disasters_fixed c"
    by (auto simp: disasters_cell_8_def stmt_simps)
  moreover have "\<forall>c \<in> set disasters_cell_9. keeps disasters_fixed c"
    by (auto simp: disasters_cell_9_def stmt_simps)
  moreover have "\<forall>c \<in> set disasters_cell_10. keeps disasters_fixed c"
    by (auto simp: disasters_cell_10_def stmt_simps)
  moreover have "\<forall>c \<in> set disasters_cell_11. keeps disasters_fixed c"
    by (auto simp: disasters_cell_11_def stmt_simps)
  ultimately show ?thesis
    by (simp add: disasters_cells_def ball_Un)
qed

lemma disasters_cells_split:
  "disasters_cells = disasters_cell_1 # disasters_cell_2 # drop 2 disasters_cells"
  by (simp add: disasters_cells_def)

lemma disasters_run_1:
  "disasters_run L 1 = Inr s \<Longrightarrow> disasters_fixed s = ([''ignore''], [], None)"
  by (auto simp: disasters_run_def disasters_cells_def disasters_cell_1_def disasters_init_def
        disasters_fixed_def ebind_Inr_iff)

lemma disasters_run_split:
  assumes "2 \<le> k"
  shows "disasters_run L k =
      ebind (run_stmts L (disasters_cell_1 @ disasters_cell_2) disasters_init)
        (run_stmts L (concat (take (k - 2) (drop 2 disasters_cells))))"
proof -
  have "take k disasters_cells = disasters_cell_1 # disasters_cell_2 # take (k - 2) (drop 2 disasters_cells)"
    using assms by (subst disasters_cells_split) (rule take_two)
  then have "concat (take k disasters_cells) =
      (disasters_cell_1 @ disasters_cell_2) @ concat (take (k - 2) (drop 2 disasters_cells))"
    by simp
  then show ?thesis
    by (simp only: disasters_run_def run_stmts_append)
qed

lemma disasters_run_fixed:
  assumes "2 \<le> k" and "disasters_run L k = Inr s"
  shows "disasters_fixed s = ([''ignore''], [], Some disasters_data)"
proof -
  let ?rest = "concat (take (k - 2) (drop 2 disasters_cells))"
  from assms obtain s2
    where s2: "run_stmts L (disasters_cell_1 @ disasters_cell_2) disasters_init = Inr s2"
    and rest: "run_stmts L ?rest s2 = Inr s"
    by (auto simp: disasters_run_split ebind_Inr_iff)
  from s2 have f2: "disasters_fixed s2 = ([''ignore''], [], Some disasters_data)"
    by (auto simp: disasters_cell_1_def disasters_cell_2_def disasters_init_def
          disasters_fixed_def ebind_Inr_iff need_Inr_iff)
  have "\<forall>c \<in> set ?rest. keeps disasters_fixed c"
  proof
    fix c assume "c \<in> set ?rest"
    then have "c \<in> set (concat (drop 2 disasters_cells))"
      by (rule set_concat_take)
    with keeps_disasters_rest show "keeps disasters_fixed c"
      by (rule bspec)
  qed
  then have "disasters_fixed s = disasters_fixed s2"
    using rest by (rule run_stmts_keeps)
  with f2 show ?thesis by simp
qed

section \<open>Both notebooks run to the end when every library call succeeds\<close>

lemma arange_nonempty: "a < b \<Longrightarrow> arange a b \<noteq> []"
  by (simp add: arange_def)

lemma amax_arange: "a < b \<Longrightarrow> amax (arange a b) = Inr (b - 1)"
proof -
  assume lt: "a < b"
  then obtain x r where xr: "arange a b = x # r"
    using arange_nonempty by (cases "arange a b") auto
  have "fold max r x = Max (set (x # r))"
    by (simp only: Max.set_eq_fold)
  also have "set (x # r) = {a..b - 1}"
    unfolding xr[symmetric] arange_upto by (rule set_upto)
  also have "Max {a..b - 1} = b - 1"
    using lt by (intro Max_eqI) auto
  finally show ?thesis
    by (simp add: amax_def xr)
qed

lemma first_elem_arange: "a < b \<Longrightarrow> first_elem (arange a b) = Inr a"
proof -
  assume lt: "a < b"
  then obtain n where n: "nat (b - a) = Suc n"
    by (cases "nat (b - a)") auto
  have "arange a b = a # map (\<lambda>i. a + int i) [Suc 0..<Suc n]"
    by (simp add: arange_def n upt_conv_Cons del: upt_Suc)
  then show ?thesis
    by (simp add: first_elem_def)
qed

lemma last_elem_arange: "a < b \<Longrightarrow> last_elem (arange a b) = Inr (b - 1)"
proof -
  assume lt: "a < b"
  then obtain n where n: "nat (b - a) = Suc n"
    by (cases "nat (b - a)") auto
  have "last (arange a b) = a + int n"
    by (simp add: arange_def n last_map)
  moreover have "a + int n = b - 1"
    using n by linarith
  ultimately show ?thesis
    using lt by (simp add: last_elem_def arange_nonempty)
qed

lemmas arange_1851 =
  amin_arange[of 1851 1962, simplified]
  amax_arange[of 1851 1962, simplified]
  first_elem_arange[of 1851 1962, simplified]
  last_elem_arange[of 1851 1962, simplified]

lemmas salmon_cell_defs = salmon_cell_1_def salmon_cell_2_def salmon_cell_3_def salmon_cell_4_def
  salmon_cell_5_def salmon_cell_6_def salmon_cell_7_def salmon_cell_8_def salmon_cell_9_def
  salmon_cell_10_def salmon_cell_11_def salmon_cell_12_def salmon_cell_13_def salmon_cell_14_def
  salmon_cell_15_def salmon_cell_16_def salmon_cell_17_def salmon_cell_18_def salmon_cell_19_def
  salmon_cell_20_def salmon_cell_21_def salmon_cell_22_def plot_salmon_gp_def scatter_salmon_def
  plot_linear_draws_def plot_quad_draws_def plot_gp_draws_def

lemmas disasters_cell_defs = disasters_cell_1_def disasters_cell_2_def disasters_cell_3_def
  disasters_cell_4_def disasters_cell_5_def disasters_cell_6_def disasters_cell_7_def
  disasters_cell_8_def disasters_cell_9_def disasters_cell_10_def disasters_cell_11_def

lemma salmon_notebook_lib_ok: "\<exists>s. salmon_notebook lib_ok = Inr s"
  by (simp add: salmon_notebook_def salmon_run_def salmon_cells_def salmon_cell_defs
        salmon_init_def lib_ok_def ebind_def need_def get_item_def samples_of_def
        gp_salmon_model_def gp_mean_coeff_def get_attr_def declare_rv_def
        gp_marginal_likelihood_def gp_conditional_def Let_def)

lemma disasters_notebook_lib_ok: "\<exists>s. disasters_notebook lib_ok = Inr s"
  by (simp add: disasters_notebook_def disasters_run_def disasters_cells_def disasters_cell_defs
        disasters_init_def lib_ok_def ebind_def need_def samples_of_def
        year_ind_of_def arange_1851
        disasters_model_1_def disasters_model_2_def disasters_model_3_def gp_prior_def
        pm_Deterministic_def declare_rv_def Let_def)

section \<open>The first two cells\<close>

lemma salmon_run_0: "salmon_run L 0 = Inr salmon_init"
  by (simp add: salmon_run_def)

lemma disasters_run_0: "disasters_run L 0 = Inr disasters_init"
  by (simp add: disasters_run_def)

lemma length_salmon_cells: "length salmon_cells = 22"
  by (simp add: salmon_cells_def)

lemma length_disasters_cells: "length disasters_cells = 11"
  by (simp add: disasters_cells_def)

lemma less_two_cases: "k < 2 \<Longrightarrow> k = 0 \<or> k = (1::nat)"
  by arith


lemma salmon_fixed_early:
  assumes "k < 2" and "salmon_run L k = Inr s"
  shows "s_file_reads s = [] \<and> s_salmon_data s = None"
proof -
  from less_two_cases[OF assms(1)] show ?thesis
  proof
    assume "k = 0"
    then show ?thesis using assms(2) by (auto simp: salmon_run_0 salmon_init_def)
  next
    assume "k = 1"
    then have "s = salmon_init\<lparr>s_warnings := [''ignore'']\<rparr>"
      using assms(2) by (simp only: salmon_run_1) simp
    then show ?thesis by (simp add: salmon_init_def)
  qed
qed

lemma disasters_fixed_early:
  assumes "k < 2" and "disasters_run L k = Inr s"
  shows "d_file_reads s = [] \<and> d_disasters_data s = None"
proof -
  from less_two_cases[OF assms(1)] show ?thesis
  proof
    assume "k = 0"
    then show ?thesis using assms(2) by (auto simp: disasters_run_0 disasters_init_def)
  next
    assume "k = 1"
    then have "disasters_fixed s = ([''ignore''], [], None)"
      using assms(2) disasters_run_1 by simp
    then show ?thesis by (simp add: disasters_fixed_def)
  qed
qed

section \<open>Which library calls a run depends on\<close>

lemma run_stmts_cong:
  assumes "\<forall>c \<in> set cs. \<forall>s. c L' s = c L s"
  shows "run_stmts L' cs s = run_stmts L cs s"
  using assms
proof (induction cs arbitrary: s)
  case Nil
  then show ?case by simp
next
  case (Cons c cs)
  have "c L' s = c L s" using Cons.prems by simp
  moreover have "run_stmts L' cs = run_stmts L cs"
    using Cons.IH Cons.prems by (intro ext) simp
  ultimately show ?case by simp
qed

lemma salmon_stmts_read_only_salmon_txt:
  assumes "f ''../data/salmon.txt'' whitespace_sep 0
             = pd_read_table L ''../data/salmon.txt'' whitespace_sep 0"
  shows "\<forall>c \<in> set (concat salmon_cells). \<forall>s. c (L\<lparr>pd_read_table := f\<rparr>) s = c L s"
  using assms by (simp add: salmon_cells_def salmon_cell_defs)

lemma disasters_stmts_read_no_file:
  "\<forall>c \<in> set (concat disasters_cells). \<forall>s. c (L\<lparr>pd_read_table := f\<rparr>) s = c L s"
  by (simp add: disasters_cells_def disasters_cell_defs)

lemma salmon_run_columns:
  assumes "salmon_run L 5 = Inr s"
  shows "\<exists>d sp re. s_salmon_data s = Some d \<and> map_of d ''spawners'' = Some sp
            \<and> map_of d ''recruits'' = Some re"
  using assms
  by (auto simp: salmon_run_def salmon_cells_def salmon_cell_1_def salmon_cell_2_def
        salmon_cell_3_def salmon_cell_4_def salmon_cell_5_def scatter_salmon_def salmon_init_def
        ebind_Inr_iff need_Inr_iff get_item_def split: option.splits)

lemma salmon_run_prefix:
  assumes "salmon_run L k = Inr s" and "j \<le> k"
  shows "\<exists>s'. salmon_run L j = Inr s'"
proof -
  have "take k salmon_cells = take j salmon_cells @ take (k - j) (drop j salmon_cells)"
    using assms(2) by (metis le_add_diff_inverse take_add)
  then have "salmon_run L k = ebind (salmon_run L j)
       (run_stmts L (concat (take (k - j) (drop j salmon_cells))))"
    by (simp add: salmon_run_def run_stmts_append)
  with assms(1) show ?thesis by (auto simp: ebind_Inr_iff)
qed


section \<open>The models that the notebooks build\<close>

text \<open>The models held by the namespace are the ones defined above.\<close>

lemma disasters_run_model:
  assumes "disasters_run L 6 = Inr t"
  shows "\<exists>m. disasters_model = Inr m \<and> d_disasters_model t = Some m"
  using assms
  by (auto simp: disasters_run_def disasters_cells_def disasters_cell_defs disasters_init_def
        ebind_Inr_iff need_Inr_iff disasters_model_def year_ind_def year_def
        disasters_model_1_def disasters_model_2_def gp_prior_def declare_rv_def Let_def
        split: prod.splits)

lemma salmon_run_quad_model:
  assumes "salmon_run L 10 = Inr s"
  shows "\<exists>d sp re. pd_read_table L ''../data/salmon.txt'' whitespace_sep 0 = Inr d
           \<and> map_of d ''spawners'' = Some sp \<and> map_of d ''recruits'' = Some re
           \<and> s_linear_salmon_model s = Some (linear_salmon_model sp re)
           \<and> s_quad_salmon_model s = Some (quad_salmon_model sp re)"
proof -
  have split: "salmon_run L 10 =
      ebind (salmon_run L 5) (run_stmts L (concat (take 5 (drop 5 salmon_cells))))"
    by (simp add: salmon_run_def salmon_cells_def run_stmts_append[symmetric]
          del: run_stmts.simps)
  with assms obtain s5 where s5: "salmon_run L 5 = Inr s5"
    and rest: "run_stmts L (concat (take 5 (drop 5 salmon_cells))) s5 = Inr s"
    by (auto simp: ebind_Inr_iff)
  from s5 obtain d sp re where d: "pd_read_table L ''../data/salmon.txt'' whitespace_sep 0 = Inr d"
      "map_of d ''spawners'' = Some sp" "map_of d ''recruits'' = Some re"
      "s_x s5 = Some sp" "s_y s5 = Some re"
    by (auto simp: salmon_run_def salmon_cells_def salmon_cell_1_def salmon_cell_2_def
        salmon_cell_3_def salmon_cell_4_def salmon_cell_5_def scatter_salmon_def salmon_init_def
        ebind_Inr_iff need_Inr_iff get_item_def split: option.splits)
  have keep_xy: "(s_x s', s_y s', s_linear_salmon_model s')
       = (s_x s0, s_y s0, s_linear_salmon_model s0)"
    if "plot_linear_draws L s0 = Inr s'" for s0 s'
  proof -
    from that obtain rows where
      "for_each (take 20 rows) (\<lambda>row s.
         ebind (unpack2 row) (\<lambda>(b0, b1).
         ebind (need (s_X_pred s)) (\<lambda>xp.
         ebind (lib_plot L (AxPlot xp (map (\<lambda>v. b0 + b1 * v) xp)
                  (Some 0.3) (Some ''seagreen''))) (\<lambda>_. Inr s)))) s0 = Inr s'"
      by (auto simp: plot_linear_draws_def ebind_Inr_iff)
    then show ?thesis
      by (rule for_each_keeps[rotated]) (auto simp: ebind_Inr_iff split: prod.splits)
  qed
  from rest d(4,5) have "s_linear_salmon_model s = Some (linear_salmon_model sp re)
           \<and> s_quad_salmon_model s = Some (quad_salmon_model sp re)"
    by (auto simp: salmon_cells_def salmon_cell_6_def salmon_cell_7_def salmon_cell_8_def
        salmon_cell_9_def salmon_cell_10_def scatter_salmon_def
        ebind_Inr_iff need_Inr_iff dest!: keep_xy)
  with d show ?thesis by blast
qed

lemma salmon_run_gp_model:
  assumes "salmon_run L 13 = Inr s"
  shows "\<exists>d gp m. pd_read_table L ''../data/salmon.txt'' whitespace_sep 0 = Inr d
           \<and> gp_salmon_model d = Inr (gp, m)
           \<and> s_gp_salmon_model s = Some m \<and> s_recruit_gp s = Some gp"
proof -
  have "salmon_run L 13 = ebind (salmon_run L 12) (run_stmts L salmon_cell_13)"
    by (simp add: salmon_run_def salmon_cells_def run_stmts_append[symmetric]
          del: run_stmts.simps)
  with assms obtain s12 where s12: "salmon_run L 12 = Inr s12"
    and last: "run_stmts L salmon_cell_13 s12 = Inr s"
    by (auto simp: ebind_Inr_iff)
  obtain d where d: "pd_read_table L ''../data/salmon.txt'' whitespace_sep 0 = Inr d"
      "salmon_fixed s12 = ([''ignore''], [''../data/salmon.txt''], Some d)"
    using salmon_run_fixed[of 12 L s12] s12 by auto
  from last d(2) obtain gp m where "gp_salmon_model d = Inr (gp, m)"
      "s_gp_salmon_model s = Some m" "s_recruit_gp s = Some gp"
    by (auto simp: salmon_cell_13_def salmon_fixed_def ebind_Inr_iff need_Inr_iff)
  with d(1) show ?thesis by blast
qed

section \<open>The salmon notebook fails at its first failing operation\<close>








lemma finish_Nil: "finish [] s = Inr s"
  by (simp add: finish_def)

lemma finish_void_Cons:
  "finish (void m # r) s = (case m of Inl e \<Rightarrow> Inl e | Inr v \<Rightarrow> finish r s)"
  by (cases m) (simp_all add: finish_def void_def)

lemma finish_Cons:
  "finish (m # r) s = (case m of Inl e \<Rightarrow> Inl e | Inr v \<Rightarrow> finish r s)"
  by (cases m) (simp_all add: finish_def)


lemma ebind_Inl: "ebind (Inl e) f = Inl e"
  by (simp add: ebind_def)

lemmas exec_simps = finish_Cons finish_Nil void_def ebind_def need_def









lemma exec_sample:
  "ebind (pm_sample L m a b c) (\<lambda>tr. Inr (f tr))
     = finish [void (pm_sample L m a b c)] (f (projr (pm_sample L m a b c)))"
  by (simp add: exec_simps split: sum.splits)























section \<open>The disasters notebook fails at its first failing operation\<close>













section \<open>Which statements read the input datasets\<close>













section \<open>The only file input\<close>

text \<open>
  Claim C4. The only file input of the two notebooks is one read of the
  whitespace-separated file \<^verbatim>\<open>../data/salmon.txt\<close>, by the first statement of the
  salmon notebook after its imports and warnings filter: the list of files read is
  empty before the second cell and holds that one path ever after; the disasters
  notebook reads no file. The salmon run depends on the file-reading function only
  through that one call, the disasters run not at all. A run that gets past the
  fifth cell has read a table with a column of spawners and a column of recruits.
\<close>

theorem only_file_input_is_salmon_txt:
  "(salmon_run L k = Inr s \<longrightarrow>
      s_file_reads s = (if k < 2 then [] else [''../data/salmon.txt'']))
   \<and> (disasters_run L k = Inr t \<longrightarrow> d_file_reads t = [])
   \<and> (f ''../data/salmon.txt'' whitespace_sep 0
         = pd_read_table L ''../data/salmon.txt'' whitespace_sep 0 \<longrightarrow>
       salmon_run (L\<lparr>pd_read_table := f\<rparr>) k = salmon_run L k)
   \<and> disasters_run (L\<lparr>pd_read_table := f\<rparr>) k = disasters_run L k
   \<and> (5 \<le> k \<and> salmon_run L k = Inr s \<longrightarrow>
        (\<exists>d sp re. pd_read_table L ''../data/salmon.txt'' whitespace_sep 0 = Inr d
           \<and> map_of d ''spawners'' = Some sp \<and> map_of d ''recruits'' = Some re))"
proof (intro conjI impI)
  assume run: "salmon_run L k = Inr s"
  show "s_file_reads s = (if k < 2 then [] else [''../data/salmon.txt''])"
  proof (cases "k < 2")
    case True
    then show ?thesis using run salmon_fixed_early by simp
  next
    case False
    then have "2 \<le> k" by simp
    then obtain d where "salmon_fixed s = ([''ignore''], [''../data/salmon.txt''], Some d)"
      using run salmon_run_fixed by blast
    then show ?thesis using False by (simp add: salmon_fixed_def)
  qed
next
  assume run: "disasters_run L k = Inr t"
  show "d_file_reads t = []"
  proof (cases "k < 2")
    case True
    then show ?thesis using run disasters_fixed_early by simp
  next
    case False
    then have "2 \<le> k" by simp
    then have "disasters_fixed t = ([''ignore''], [], Some disasters_data)"
      using run by (rule disasters_run_fixed)
    then show ?thesis by (simp add: disasters_fixed_def)
  qed
next
  assume eq: "f ''../data/salmon.txt'' whitespace_sep 0
         = pd_read_table L ''../data/salmon.txt'' whitespace_sep 0"
  have "\<forall>c \<in> set (concat (take k salmon_cells)). \<forall>s. c (L\<lparr>pd_read_table := f\<rparr>) s = c L s"
  proof
    fix c assume "c \<in> set (concat (take k salmon_cells))"
    then have "c \<in> set (concat salmon_cells)" by (rule set_concat_take)
    with salmon_stmts_read_only_salmon_txt[where f = f and L = L] eq
    show "\<forall>s. c (L\<lparr>pd_read_table := f\<rparr>) s = c L s" by blast
  qed
  then show "salmon_run (L\<lparr>pd_read_table := f\<rparr>) k = salmon_run L k"
    unfolding salmon_run_def by (rule run_stmts_cong)
next
  have "\<forall>c \<in> set (concat (take k disasters_cells)). \<forall>s. c (L\<lparr>pd_read_table := f\<rparr>) s = c L s"
  proof
    fix c assume "c \<in> set (concat (take k disasters_cells))"
    then have "c \<in> set (concat disasters_cells)" by (rule set_concat_take)
    with disasters_stmts_read_no_file[where f = f and L = L]
    show "\<forall>s. c (L\<lparr>pd_read_table := f\<rparr>) s = c L s" by blast
  qed
  then show "disasters_run (L\<lparr>pd_read_table := f\<rparr>) k = disasters_run L k"
    unfolding disasters_run_def by (rule run_stmts_cong)
next
  assume a: "5 \<le> k \<and> salmon_run L k = Inr s"
  then obtain s5 where s5: "salmon_run L 5 = Inr s5"
    using salmon_run_prefix by blast
  then obtain d sp re where d: "s_salmon_data s5 = Some d" "map_of d ''spawners'' = Some sp"
      "map_of d ''recruits'' = Some re"
    using salmon_run_columns by blast
  obtain d' where d': "pd_read_table L ''../data/salmon.txt'' whitespace_sep 0 = Inr d'"
      "salmon_fixed s5 = ([''ignore''], [''../data/salmon.txt''], Some d')"
    using salmon_run_fixed[of 5 L s5] s5 by auto
  then have "d' = d" using d(1) by (simp add: salmon_fixed_def)
  with d d' show "\<exists>d sp re. pd_read_table L ''../data/salmon.txt'' whitespace_sep 0 = Inr d
           \<and> map_of d ''spawners'' = Some sp \<and> map_of d ''recruits'' = Some re"
    by blast
qed

theorem only_file_input_is_salmon_txt_witness:
  "s_file_reads (projr (salmon_notebook lib_ok)) = [''../data/salmon.txt'']
   \<and> d_file_reads (projr (disasters_notebook lib_ok)) = []
   \<and> salmon_run (lib_ok\<lparr>pd_read_table :=
         (\<lambda>path sep idx. if path = ''../data/salmon.txt''
                          then Inr [(''spawners'', [2, 4]), (''recruits'', [6, 4])]
                          else Inl FileNotFoundError)\<rparr>) 22 = salmon_run lib_ok 22"
proof -
  let ?f = "\<lambda>path (sep :: string) (idx :: nat). if path = ''../data/salmon.txt''
                          then Inr [(''spawners'', [2, 4 :: real]), (''recruits'', [6, 4 :: real])]
                          else Inl FileNotFoundError"
  obtain s where s: "salmon_notebook lib_ok = Inr s"
    using salmon_notebook_lib_ok by blast
  obtain t where t: "disasters_notebook lib_ok = Inr t"
    using disasters_notebook_lib_ok by blast
  have s22: "salmon_run lib_ok 22 = Inr s"
    using s by (simp only: salmon_notebook_def length_salmon_cells)
  have t11: "disasters_run lib_ok 11 = Inr t"
    using t by (simp only: disasters_notebook_def length_disasters_cells)
  have a: "s_file_reads s = [''../data/salmon.txt'']"
    using only_file_input_is_salmon_txt[of lib_ok 22 s _ _] s22 by simp
  have b: "d_file_reads t = []"
    using only_file_input_is_salmon_txt[of lib_ok 11 _ t _] t11 by simp
  have c: "salmon_run (lib_ok\<lparr>pd_read_table := ?f\<rparr>) 22 = salmon_run lib_ok 22"
    using only_file_input_is_salmon_txt[of lib_ok 22 _ _ ?f] by (simp add: lib_ok_def)
  from a b c s t show ?thesis by simp
qed

section \<open>The input datasets are bound once, never changed, and read for three uses\<close>




section \<open>Warnings are ignored and errors are not handled\<close>



end
